theory Spec2Isabelle
  imports
    Complex_Main
    "HOL-Library.Mapping"
    "HOL-Library.Char_ord"
    "HOL-Library.List_Lexorder"
    "HOL-Library.Product_Lexorder"
begin

section \<open>Catalog calculation: the plugin scheduler (catalogCalculation.py)\<close>

subsection \<open>Exceptions\<close>

text \<open>
  Exception classes. The three classes that \<^verbatim>\<open>CCContext.__exit__\<close> names are constructors of
  their own; they are unrelated by inheritance. Every other class is \<open>Class n bases\<close>, a class
  called \<open>n\<close> with the listed direct base classes (none for a class whose bases do not matter,
  such as \<^verbatim>\<open>ValueError\<close>). Two classes are the same object exactly when the terms are equal,
  which is what Python's \<^verbatim>\<open>is\<close> and the tuple membership test \<^verbatim>\<open>in\<close> compare.
\<close>

datatype exc_class =
    MemoryError
  | FatalAlgorithmError
  | MeasurementError
  | Class string "exc_class list"

text \<open>\<^verbatim>\<open>issubclass(t, c)\<close>: \<open>t\<close> is \<open>c\<close> or one of its bases is a subclass of \<open>c\<close>.\<close>

fun issubclass :: "exc_class \<Rightarrow> exc_class \<Rightarrow> bool" where
  "issubclass (Class n bases) c = (Class n bases = c \<or> (\<exists>b \<in> set bases. issubclass b c))"
| "issubclass t c = (t = c)"

text \<open>An exception value: its class (\<^verbatim>\<open>type(exc_value)\<close>) and its message (\<^verbatim>\<open>str(exc_value)\<close>).\<close>

record exc =
  exc_type :: exc_class
  message :: string

text \<open>\<^verbatim>\<open>FATAL_EXCEPTIONS = (MemoryError, FatalAlgorithmError)\<close>\<close>

definition FATAL_EXCEPTIONS :: "exc_class list" where
  "FATAL_EXCEPTIONS = [MemoryError, FatalAlgorithmError]"

subsection \<open>Plugins, the world they act on, and the record of what happened\<close>

text \<open>
  The argument \<^verbatim>\<open>cat\<close> of \<^verbatim>\<open>calculate\<close>, \<^verbatim>\<open>fail\<close> and \<^verbatim>\<open>CCContext\<close>: the whole catalog or one
  of its records. A record is a handle of type \<open>'a\<close>; what the records hold lives in the store.
\<close>

datatype 'a cat = Catalog "'a list" | Record 'a

text \<open>
  A plugin instance. \<open>calculate\<close> is handed its target and the store (everything the plugin may
  mutate in place); it returns the exception it raised, if any, and the store as it left it.
  \<open>fail\<close> is the plugin's failure handler, given the target and the exception; it may raise
  as well.
\<close>

record ('a, 'st) plugin =
  name :: string
  plugType :: string
  calculate :: "'a cat \<Rightarrow> 'st \<Rightarrow> exc option \<times> 'st"
  fail :: "'a cat \<Rightarrow> exc \<Rightarrow> 'st \<Rightarrow> exc option \<times> 'st"

text \<open>What a run does, in order: the calls of \<^verbatim>\<open>calculate\<close> and \<^verbatim>\<open>fail\<close> and the warnings logged.\<close>

datatype 'a event =
    Calculate string "'a cat"
  | Fail string "'a cat" exc
  | Warn string

record ('a, 'st) world =
  store :: 'st
  events :: "'a event list"

text \<open>The calls of \<^verbatim>\<open>calculate\<close> among the events: plugin name and target, in order.\<close>

fun calculations :: "'a event list \<Rightarrow> (string \<times> 'a cat) list" where
  "calculations [] = []"
| "calculations (Calculate n c # es) = (n, c) # calculations es"
| "calculations (_ # es) = calculations es"

subsection \<open>\<^verbatim>\<open>CCContext\<close>\<close>

text \<open>
  \<^verbatim>\<open>CCContext.__exit__\<close>. The first component of the result is the exception that leaves the
  \<^verbatim>\<open>with\<close> block: \<open>None\<close> when \<^verbatim>\<open>__exit__\<close> returns \<^verbatim>\<open>True\<close> (nothing raised, or the exception
  is swallowed), the exception itself when \<^verbatim>\<open>__exit__\<close> raises it again. The call of
  \<^verbatim>\<open>self.plugin.fail\<close> is not guarded: an exception that \<open>fail\<close> raises leaves \<^verbatim>\<open>__exit__\<close>
  and the \<^verbatim>\<open>with\<close> block in place of the one that was being handled.
\<close>

definition CCContext_exit ::
  "('a, 'st) plugin \<Rightarrow> 'a cat \<Rightarrow> exc option \<Rightarrow> ('a, 'st) world \<Rightarrow> exc option \<times> ('a, 'st) world"
where
  "CCContext_exit plug c raised w =
     (case raised of
        None \<Rightarrow> (None, w)
      | Some exc_value \<Rightarrow>
          if exc_type exc_value \<in> set FATAL_EXCEPTIONS then (Some exc_value, w)
          else if exc_type exc_value = MeasurementError then
            (case fail plug c exc_value (store w) of
               (raised_by_fail, st) \<Rightarrow>
                 (raised_by_fail,
                  w\<lparr>store := st, events := events w @ [Fail (name plug) c exc_value]\<rparr>))
          else
            (None, w\<lparr>events := events w @
                       [Warn (''Error in '' @ name plug @ ''.calculate: '' @ message exc_value)]\<rparr>))"

text \<open>\<^verbatim>\<open>with CCContext(plug, cat, self.log): plug.calculate(cat)\<close>\<close>

definition invoke ::
  "('a, 'st) plugin \<Rightarrow> 'a cat \<Rightarrow> ('a, 'st) world \<Rightarrow> exc option \<times> ('a, 'st) world"
where
  "invoke plug c w =
     (case calculate plug c (store w) of
        (raised, st) \<Rightarrow>
          CCContext_exit plug c raised
            (w\<lparr>store := st, events := events w @ [Calculate (name plug) c]\<rparr>))"

subsection \<open>\<^verbatim>\<open>CatalogCalculationTask.callCompute\<close>\<close>

text \<open>The named tuple \<^verbatim>\<open>pluginType(single, multi)\<close>: one bucket of the execution dictionary.\<close>

record ('a, 'st) pluginType =
  single :: "('a, 'st) plugin list"
  multi :: "('a, 'st) plugin list"

type_synonym ('a, 'st) executionDict = "(real, ('a, 'st) pluginType) mapping"

text \<open>
  A \<^verbatim>\<open>for\<close> loop whose body may raise: the body runs on each element in turn, and the first
  exception that leaves a body ends the loop and leaves it too.
\<close>

fun for_each :: "('x \<Rightarrow> 'w \<Rightarrow> 'e option \<times> 'w) \<Rightarrow> 'x list \<Rightarrow> 'w \<Rightarrow> 'e option \<times> 'w" where
  "for_each body [] w = (None, w)"
| "for_each body (x # xs) w =
     (case body x w of
        (Some e, w') \<Rightarrow> (Some e, w')
      | (None, w') \<Rightarrow> for_each body xs w')"

text \<open>The body of the loop over run levels: the catalog plugins, then the record plugins.\<close>

definition run_level ::
  "('a, 'st) pluginType \<Rightarrow> 'a list \<Rightarrow> ('a, 'st) world \<Rightarrow> exc option \<times> ('a, 'st) world"
where
  "run_level bucket catalog w =
     (case for_each (\<lambda>plug. invoke plug (Catalog catalog)) (multi bucket) w of
        (Some e, w') \<Rightarrow> (Some e, w')
      | (None, w') \<Rightarrow>
          for_each (\<lambda>measRecord. for_each (\<lambda>plug. invoke plug (Record measRecord)) (single bucket))
            catalog w')"

text \<open>
  \<^verbatim>\<open>callCompute\<close>: \<^verbatim>\<open>sorted(self.executionDict)\<close> is the ascending list of the keys. Each
  run level is a key, so the lookup \<^verbatim>\<open>self.executionDict[runlevel]\<close> finds its bucket; the
  \<^verbatim>\<open>KeyError\<close> branch is there for totality.
\<close>

definition callCompute ::
  "('a, 'st) executionDict \<Rightarrow> 'a list \<Rightarrow> ('a, 'st) world \<Rightarrow> exc option \<times> ('a, 'st) world"
where
  "callCompute executionDict catalog w =
     for_each
       (\<lambda>runlevel w.
          case Mapping.lookup executionDict runlevel of
            None \<Rightarrow> (Some \<lparr>exc_type = Class ''KeyError'' [], message = ''runlevel''\<rparr>, w)
          | Some bucket \<Rightarrow> run_level bucket catalog w)
       (Mapping.ordered_keys executionDict) w"

text \<open>
  The order of the calls that \<^verbatim>\<open>callCompute\<close> makes when nothing stops it. For one run level:
  each catalog plugin with the whole catalog, in list order; then, record by record, each record
  plugin with that record.
\<close>

definition level_schedule ::
  "('a, 'st) pluginType \<Rightarrow> 'a list \<Rightarrow> (('a, 'st) plugin \<times> 'a cat) list"
where
  "level_schedule bucket catalog =
     map (\<lambda>plug. (plug, Catalog catalog)) (multi bucket) @
     concat (map (\<lambda>measRecord. map (\<lambda>plug. (plug, Record measRecord)) (single bucket)) catalog)"

text \<open>For the whole dictionary: the run levels in ascending order, each with its schedule.\<close>

definition schedule ::
  "('a, 'st) executionDict \<Rightarrow> 'a list \<Rightarrow> (('a, 'st) plugin \<times> 'a cat) list"
where
  "schedule executionDict catalog =
     concat (map (\<lambda>runlevel. case Mapping.lookup executionDict runlevel of
                                None \<Rightarrow> []
                              | Some bucket \<Rightarrow> level_schedule bucket catalog)
                 (Mapping.ordered_keys executionDict))"

subsection \<open>\<^verbatim>\<open>CatalogCalculationTask.initializePlugins\<close>\<close>

text \<open>
  A plugin class: its class method \<^verbatim>\<open>getExecutionOrder\<close> and its constructor, which is given the
  plugin's configuration and the name it was registered with. What the constructor does to the
  schema and the metadata is not followed.
\<close>

record ('a, 'st, 'cfg) PluginClass =
  getExecutionOrder :: real
  new :: "'cfg \<Rightarrow> string \<Rightarrow> ('a, 'st) plugin"

text \<open>The configured plugins \<^verbatim>\<open>self.config.plugins\<close>: name, configuration and class of each.\<close>

type_synonym ('a, 'st, 'cfg) plugin_config = "(string \<times> 'cfg \<times> ('a, 'st, 'cfg) PluginClass) list"

text \<open>
  Modelled from the spec: \<^verbatim>\<open>config.plugins.apply()\<close> belongs to the plugin registry, which is
  not among the sources. It yields, for each enabled plugin, a tuple of (executionOrder, name,
  resolvedConfig, PluginClass), obtained by calling each registered class's
  \<^verbatim>\<open>getExecutionOrder()\<close>.
\<close>

definition apply_plugins ::
  "('a, 'st, 'cfg) plugin_config \<Rightarrow> (real \<times> string \<times> 'cfg \<times> ('a, 'st, 'cfg) PluginClass) list"
where
  "apply_plugins config_plugins =
     map (\<lambda>(nm, config, PluginClass). (getExecutionOrder PluginClass, nm, config, PluginClass))
       config_plugins"

text \<open>
  \<^verbatim>\<open>sorted(...)\<close> of those tuples: ascending by execution order, then by name. Names are the
  keys of the registry, so no two tuples agree on both and the later components are never
  compared.
\<close>

definition sorted_plugins ::
  "(real \<times> string \<times> 'cfg \<times> ('a, 'st, 'cfg) PluginClass) list \<Rightarrow>
   (real \<times> string \<times> 'cfg \<times> ('a, 'st, 'cfg) PluginClass) list"
where
  "sorted_plugins = sort_key (\<lambda>(executionOrder, nm, config, PluginClass). (executionOrder, nm))"

text \<open>
  The \<^verbatim>\<open>ValueError\<close> of \<^verbatim>\<open>initializePlugins\<close>, with the execution order and the minimum that
  its message reports.
\<close>

datatype init_error = ValueError real real

text \<open>The part of the task that \<^verbatim>\<open>initializePlugins\<close> fills: \<^verbatim>\<open>self.plugins\<close> and
  \<^verbatim>\<open>self.executionDict\<close>.\<close>

record ('a, 'st) task =
  plugins :: "(string \<times> ('a, 'st) plugin) list"
  executionDict :: "('a, 'st) executionDict"

text \<open>
  The body of the loop of \<^verbatim>\<open>initializePlugins\<close>. \<^verbatim>\<open>BasePlugin.DEFAULT_CATALOGCALCULATION\<close> is
  defined outside the sources and is a parameter. The task is changed in place, so the result
  carries it also when the \<^verbatim>\<open>ValueError\<close> is raised.
\<close>

definition initializePlugin ::
  "real \<Rightarrow> real \<times> string \<times> 'cfg \<times> ('a, 'st, 'cfg) PluginClass \<Rightarrow> ('a, 'st) task \<Rightarrow>
   init_error option \<times> ('a, 'st) task"
where
  "initializePlugin DEFAULT_CATALOGCALCULATION entry t =
     (case entry of (executionOrder, nm, config, PluginClass) \<Rightarrow>
        let t1 = (if executionOrder \<notin> Mapping.keys (executionDict t)
                  then t\<lparr>executionDict :=
                           Mapping.update executionOrder \<lparr>single = [], multi = []\<rparr> (executionDict t)\<rparr>
                  else t)
        in
          if getExecutionOrder PluginClass \<ge> DEFAULT_CATALOGCALCULATION then
            let plug = new PluginClass config nm;
                t2 = t1\<lparr>plugins := AList.update nm plug (plugins t1)\<rparr>
            in
              if plugType plug = ''single'' then
                (None, t2\<lparr>executionDict :=
                            Mapping.map_entry executionOrder (\<lambda>b. b\<lparr>single := single b @ [plug]\<rparr>)
                              (executionDict t2)\<rparr>)
              else if plugType plug = ''multi'' then
                (None, t2\<lparr>executionDict :=
                            Mapping.map_entry executionOrder (\<lambda>b. b\<lparr>multi := multi b @ [plug]\<rparr>)
                              (executionDict t2)\<rparr>)
              else (None, t2)
          else
            (Some (ValueError (getExecutionOrder PluginClass) DEFAULT_CATALOGCALCULATION), t1))"

text \<open>\<^verbatim>\<open>initializePlugins\<close>, from the empty \<^verbatim>\<open>PluginMap\<close> and the empty dictionary.\<close>

definition initializePlugins ::
  "real \<Rightarrow> ('a, 'st, 'cfg) plugin_config \<Rightarrow> init_error option \<times> ('a, 'st) task"
where
  "initializePlugins DEFAULT_CATALOGCALCULATION config_plugins =
     for_each (initializePlugin DEFAULT_CATALOGCALCULATION)
       (sorted_plugins (apply_plugins config_plugins))
       \<lparr>plugins = [], executionDict = Mapping.empty\<rparr>"

section \<open>Aperture correction (applyApCorr.py)\<close>

subsection \<open>The schema\<close>

text \<open>
  Modelled from the spec: the table schema (\<^verbatim>\<open>lsst.afw.table.Schema\<close>) is not among the sources.
  The spec lists what is used of it: \<^verbatim>\<open>find(name) -> key\<close>, \<^verbatim>\<open>addField(name, doc, type) -> key\<close>,
  \<^verbatim>\<open>getAliasMap().set(alias, target)\<close> and the membership test \<^verbatim>\<open>name in schema\<close>. Here a schema
  is the list of its fields, in the order they were added, and its alias table. The key of a
  field is its position in the list: the storage its values have in every record.
\<close>

datatype field_type = Float64 | Flag

record schema =
  schema_fields :: "(string \<times> field_type) list"
  schema_aliases :: "(string \<times> string) list"

text \<open>The position of the first field called \<open>nm\<close>.\<close>

fun index_of :: "string \<Rightarrow> (string \<times> field_type) list \<Rightarrow> nat option" where
  "index_of nm [] = None"
| "index_of nm (f # fs) = (if fst f = nm then Some 0 else map_option Suc (index_of nm fs))"

text \<open>Modelled from the spec: \<^verbatim>\<open>addField\<close> appends a field and returns its key.\<close>

definition schema_addField :: "schema \<Rightarrow> string \<Rightarrow> field_type \<Rightarrow> nat \<times> schema" where
  "schema_addField s nm ty = (length (schema_fields s), s\<lparr>schema_fields := schema_fields s @ [(nm, ty)]\<rparr>)"

text \<open>Modelled from the spec: \<^verbatim>\<open>getAliasMap().set(alias, target)\<close> enters or replaces an alias.\<close>

definition aliases_set :: "schema \<Rightarrow> string \<Rightarrow> string \<Rightarrow> schema" where
  "aliases_set s alias target = s\<lparr>schema_aliases := AList.update alias target (schema_aliases s)\<rparr>"

text \<open>
  Modelled from the spec: \<^verbatim>\<open>find(name).key\<close>. An alias stands for the name of its target;
  \<open>None\<close> is the lookup error raised for a name that is no field.
\<close>

definition schema_find :: "schema \<Rightarrow> string \<Rightarrow> nat option" where
  "schema_find s nm =
     index_of (case map_of (schema_aliases s) nm of None \<Rightarrow> nm | Some target \<Rightarrow> target) (schema_fields s)"

text \<open>Modelled from the spec: \<^verbatim>\<open>name in schema\<close>.\<close>

definition schema_contains :: "schema \<Rightarrow> string \<Rightarrow> bool" where
  "schema_contains s nm = (schema_find s nm \<noteq> None)"

subsection \<open>\<^verbatim>\<open>ApCorrInfo\<close>\<close>

text \<open>The attributes of \<^verbatim>\<open>ApCorrInfo\<close>; \<open>info_name\<close> is the attribute \<^verbatim>\<open>name\<close>.\<close>

record ApCorrInfo =
  info_name :: string
  modelName :: string
  modelSigmaName :: string
  doApCorrColumn :: bool
  instFluxName :: string
  instFluxErrName :: string
  instFluxKey :: nat
  instFluxErrKey :: nat
  fluxFlagKey :: nat
  apCorrKey :: nat
  apCorrErrKey :: nat
  apCorrFlagKey :: nat

text \<open>
  The two branches of \<^verbatim>\<open>ApCorrInfo.__init__\<close> that give \<^verbatim>\<open>apCorrKey\<close> and \<^verbatim>\<open>apCorrErrKey\<close>:
  new columns, or aliases to the columns of the model. The schema is changed in place, so it
  is returned also when a lookup fails.
\<close>

definition apCorr_columns ::
  "schema \<Rightarrow> string \<Rightarrow> string \<Rightarrow> bool \<Rightarrow> (nat \<times> nat) option \<times> schema"
where
  "apCorr_columns schema model nm doColumn =
     (if doColumn then
        (case schema_addField schema (nm @ ''_apCorr'') Float64 of (k1, s1) \<Rightarrow>
         case schema_addField s1 (nm @ ''_apCorrErr'') Float64 of (k2, s2) \<Rightarrow>
           (Some (k1, k2), s2))
      else
        (let s1 = aliases_set schema (nm @ ''_apCorr'') (model @ ''_apCorr'');
             s2 = aliases_set s1 (nm @ ''_apCorrErr'') (model @ ''_apCorrErr'')
         in case schema_find s2 (nm @ ''_apCorr'') of
              None \<Rightarrow> (None, s2)
            | Some k1 \<Rightarrow>
               (case schema_find s2 (nm @ ''_apCorrErr'') of
                  None \<Rightarrow> (None, s2)
                | Some k2 \<Rightarrow> (Some (k1, k2), s2))))"

text \<open>\<^verbatim>\<open>ApCorrInfo.__init__(self, schema, model, name=None)\<close>\<close>

definition ApCorrInfo_init ::
  "schema \<Rightarrow> string \<Rightarrow> string option \<Rightarrow> ApCorrInfo option \<times> schema"
where
  "ApCorrInfo_init schema model name_arg =
     (let nm = (case name_arg of None \<Rightarrow> model | Some n \<Rightarrow> n) in
      case schema_find schema (nm @ ''_instFlux'') of
        None \<Rightarrow> (None, schema)
      | Some fluxKey \<Rightarrow>
      case schema_find schema (nm @ ''_instFluxErr'') of
        None \<Rightarrow> (None, schema)
      | Some fluxErrKey \<Rightarrow>
      case schema_find schema (nm @ ''_flag'') of
        None \<Rightarrow> (None, schema)
      | Some flagKey \<Rightarrow>
      let doColumn = (nm = model \<or> \<not> schema_contains schema (model @ ''_apCorr'')) in
      case apCorr_columns schema model nm doColumn of
        (None, s2) \<Rightarrow> (None, s2)
      | (Some (k1, k2), s2) \<Rightarrow>
      case schema_addField s2 (nm @ ''_flag_apCorr'') Flag of (k3, s3) \<Rightarrow>
        (Some \<lparr>info_name = nm,
               modelName = model @ ''_instFlux'',
               modelSigmaName = model @ ''_instFluxErr'',
               doApCorrColumn = doColumn,
               instFluxName = nm @ ''_instFlux'',
               instFluxErrName = nm @ ''_instFluxErr'',
               instFluxKey = fluxKey,
               instFluxErrKey = fluxErrKey,
               fluxFlagKey = flagKey,
               apCorrKey = k1,
               apCorrErrKey = k2,
               apCorrFlagKey = k3\<rparr>, s3))"

subsection \<open>Floating-point numbers\<close>

text \<open>
  The values of a 64-bit float (Python's \<^verbatim>\<open>float\<close>, \<^verbatim>\<open>np.float64\<close>): the finite ones by the real
  number they stand for, the two infinities and NaN. The two zeros are the one value \<open>Fin 0\<close>:
  they are equal for Python's \<^verbatim>\<open>==\<close>, and nothing here tells them apart.
\<close>

datatype f64 = Fin real | PInf | NInf | NaN

text \<open>Rounding to the nearest integer, a tie to the even one.\<close>

definition round_half_even :: "real \<Rightarrow> int" where
  "round_half_even r =
     (let f = \<lfloor>r\<rfloor> in
      if r - of_int f < 1 / 2 then f
      else if 1 / 2 < r - of_int f then f + 1
      else if even f then f else f + 1)"

text \<open>
  Rounding a real to the nearest 64-bit float, a tie to the even significand: 53 significant
  bits, the exponent of the last bit no less than \<open>- 1074\<close> (so that small numbers become
  subnormal or zero), and every result of \<open>2 ^ 1024\<close> or more an infinity.
\<close>

definition fround :: "real \<Rightarrow> f64" where
  "fround x =
     (if x = 0 then Fin 0
      else
        let e = \<lfloor>log 2 \<bar>x\<bar>\<rfloor>;
            q = max e (- 1022) - 52;
            y = of_int (round_half_even (\<bar>x\<bar> / 2 powr of_int q)) * 2 powr of_int q
        in if 2 ^ 1024 \<le> y then (if 0 < x then PInf else NInf) else Fin (sgn x * y))"

text \<open>The product \<^verbatim>\<open>x * y\<close> of two floats: the exact product, rounded; no exception.\<close>

fun fmul :: "f64 \<Rightarrow> f64 \<Rightarrow> f64" where
  "fmul NaN y = NaN"
| "fmul x NaN = NaN"
| "fmul (Fin a) (Fin b) = fround (a * b)"
| "fmul (Fin a) PInf = (if a = 0 then NaN else if 0 < a then PInf else NInf)"
| "fmul (Fin a) NInf = (if a = 0 then NaN else if 0 < a then NInf else PInf)"
| "fmul PInf (Fin b) = (if b = 0 then NaN else if 0 < b then PInf else NInf)"
| "fmul NInf (Fin b) = (if b = 0 then NaN else if 0 < b then NInf else PInf)"
| "fmul PInf PInf = PInf"
| "fmul PInf NInf = NInf"
| "fmul NInf PInf = NInf"
| "fmul NInf NInf = PInf"

text \<open>The sum \<^verbatim>\<open>x + y\<close> of two floats.\<close>

fun fadd :: "f64 \<Rightarrow> f64 \<Rightarrow> f64" where
  "fadd NaN y = NaN"
| "fadd x NaN = NaN"
| "fadd (Fin a) (Fin b) = fround (a + b)"
| "fadd PInf NInf = NaN"
| "fadd NInf PInf = NaN"
| "fadd PInf y = PInf"
| "fadd NInf y = NInf"
| "fadd x PInf = PInf"
| "fadd x NInf = NInf"

text \<open>The quotient \<^verbatim>\<open>x / y\<close> of two floats; \<open>None\<close> is Python's \<^verbatim>\<open>ZeroDivisionError\<close>.\<close>

fun truediv :: "f64 \<Rightarrow> f64 \<Rightarrow> f64 option" where
  "truediv x (Fin b) =
     (if b = 0 then None
      else Some (case x of
                   Fin a \<Rightarrow> fround (a / b)
                 | PInf \<Rightarrow> if 0 < b then PInf else NInf
                 | NInf \<Rightarrow> if 0 < b then NInf else PInf
                 | NaN \<Rightarrow> NaN))"
| "truediv (Fin a) PInf = Some (Fin 0)"
| "truediv (Fin a) NInf = Some (Fin 0)"
| "truediv x y = Some NaN"

text \<open>\<^verbatim>\<open>abs(x)\<close>\<close>

fun fabs :: "f64 \<Rightarrow> f64" where
  "fabs (Fin a) = Fin \<bar>a\<bar>"
| "fabs PInf = PInf"
| "fabs NInf = PInf"
| "fabs NaN = NaN"

text \<open>\<^verbatim>\<open>math.sqrt(x)\<close>; \<open>None\<close> is the \<^verbatim>\<open>ValueError\<close> that it raises for a negative number.\<close>

fun math_sqrt :: "f64 \<Rightarrow> f64 option" where
  "math_sqrt (Fin a) = (if a < 0 then None else Some (fround (sqrt a)))"
| "math_sqrt PInf = Some PInf"
| "math_sqrt NInf = None"
| "math_sqrt NaN = Some NaN"

text \<open>The comparison \<^verbatim>\<open>x <= y\<close>: false when either side is NaN.\<close>

fun fle :: "f64 \<Rightarrow> f64 \<Rightarrow> bool" where
  "fle NaN y = False"
| "fle x NaN = False"
| "fle NInf y = True"
| "fle x PInf = True"
| "fle PInf y = False"
| "fle x NInf = False"
| "fle (Fin a) (Fin b) = (a \<le> b)"

text \<open>The comparison \<^verbatim>\<open>x < y\<close>.\<close>

definition flt :: "f64 \<Rightarrow> f64 \<Rightarrow> bool" where
  "flt x y = (fle x y \<and> \<not> fle y x)"

subsection \<open>\<^verbatim>\<open>ApplyApCorrTask.run\<close>\<close>

text \<open>
  A source record: its centroid, and the values of its columns by key, the floating-point
  columns in \<open>dbl\<close> and the flag columns in \<open>flg\<close>.
\<close>

record source =
  centroid :: "f64 \<times> f64"
  dbl :: "nat \<Rightarrow> f64"
  flg :: "nat \<Rightarrow> bool"

text \<open>
  A correction model: \<^verbatim>\<open>evaluate(position)\<close> gives a number, or raises a domain error
  (\<open>None\<close>). The aperture correction map: \<^verbatim>\<open>get(name)\<close> gives a model or \<^verbatim>\<open>None\<close>.
\<close>

type_synonym model = "f64 \<times> f64 \<Rightarrow> f64 option"

type_synonym apCorrMap = "string \<Rightarrow> model option"

text \<open>
  The errors that \<^verbatim>\<open>run\<close> lets out, both of the non-naive mode: the division by a zero flux,
  and the \<^verbatim>\<open>ValueError\<close> of \<^verbatim>\<open>math.sqrt\<close>.
\<close>

datatype run_error = ZeroDivisionError | MathValueError

record ApplyApCorrConfig =
  ignoreList :: "string list"
  doFlagApCorrFailures :: bool
  proxies :: "(string \<times> string) list"

record ApplyApCorrTask =
  config :: ApplyApCorrConfig
  apCorrInfoDict :: "(string \<times> ApCorrInfo) list"

text \<open>
  The \<^verbatim>\<open>try\<close> block: the values of the local variables \<^verbatim>\<open>apCorr\<close> and \<^verbatim>\<open>apCorrErr\<close> after it,
  and whether a domain error was caught. The module-level flag \<^verbatim>\<open>UseNaiveFluxErr\<close> (\<^verbatim>\<open>True\<close> in
  the source) is a parameter.
\<close>

definition evaluateApCorr :: "bool \<Rightarrow> model \<Rightarrow> model \<Rightarrow> f64 \<times> f64 \<Rightarrow> f64 \<times> f64 \<times> bool" where
  "evaluateApCorr UseNaiveFluxErr apCorrModel apCorrErrModel center =
     (let apCorr = Fin 1; apCorrErr = Fin 0 in
      case apCorrModel center of
        None \<Rightarrow> (apCorr, apCorrErr, True)
      | Some v \<Rightarrow>
          if \<not> UseNaiveFluxErr then
            (case apCorrErrModel center of
               None \<Rightarrow> (v, apCorrErr, True)
             | Some ve \<Rightarrow> (v, ve, False))
          else (v, apCorrErr, False))"

text \<open>
  The value that the branch on \<^verbatim>\<open>UseNaiveFluxErr\<close> stores in the flux error column, or the
  error that computing it raises.
\<close>

definition new_instFluxErr :: "bool \<Rightarrow> f64 \<Rightarrow> f64 \<Rightarrow> f64 \<Rightarrow> f64 \<Rightarrow> run_error + f64" where
  "new_instFluxErr UseNaiveFluxErr instFlux instFluxErr apCorr apCorrErr =
     (if UseNaiveFluxErr then Inr (fmul instFluxErr apCorr)
      else
        case truediv instFluxErr instFlux of
          None \<Rightarrow> Inl ZeroDivisionError
        | Some a \<Rightarrow>
        case truediv apCorrErr apCorr of
          None \<Rightarrow> Inl ZeroDivisionError
        | Some b \<Rightarrow>
        case math_sqrt (fadd (fmul a a) (fmul b b)) of
          None \<Rightarrow> Inl MathValueError
        | Some sq \<Rightarrow> Inr (fmul (fabs (fmul instFlux apCorr)) sq))"

text \<open>
  The body of the loop over the sources, for one field. The source is changed in place, so it
  is returned as it is also when an error is raised.
\<close>

definition correctSource ::
  "bool \<Rightarrow> bool \<Rightarrow> ApCorrInfo \<Rightarrow> model \<Rightarrow> model \<Rightarrow> source \<Rightarrow> run_error option \<times> source"
where
  "correctSource UseNaiveFluxErr doFlag apCorrInfo apCorrModel apCorrErrModel source =
     (let center = centroid source;
          s1 = source\<lparr>flg := (flg source)(apCorrFlagKey apCorrInfo := True)\<rparr>;
          oldFluxFlagState = (if doFlag then flg s1 (fluxFlagKey apCorrInfo) else False);
          s2 = (if doFlag then s1\<lparr>flg := (flg s1)(fluxFlagKey apCorrInfo := True)\<rparr> else s1)
      in
        case evaluateApCorr UseNaiveFluxErr apCorrModel apCorrErrModel center of
          (apCorr, apCorrErr, domainError) \<Rightarrow>
            if domainError then (None, s2)
            else
              let s3 = (if doApCorrColumn apCorrInfo
                        then s2\<lparr>dbl := (dbl s2)(apCorrKey apCorrInfo := apCorr,
                                                  apCorrErrKey apCorrInfo := apCorrErr)\<rparr>
                        else s2)
              in
                if fle apCorr (Fin 0) \<or> flt apCorrErr (Fin 0) then (None, s3)
                else
                  let instFlux = dbl s3 (instFluxKey apCorrInfo);
                      instFluxErr = dbl s3 (instFluxErrKey apCorrInfo);
                      s4 = s3\<lparr>dbl := (dbl s3)(instFluxKey apCorrInfo := fmul instFlux apCorr)\<rparr>
                  in
                    case new_instFluxErr UseNaiveFluxErr instFlux instFluxErr apCorr apCorrErr of
                      Inl err \<Rightarrow> (Some err, s4)
                    | Inr v \<Rightarrow>
                        let s5 = s4\<lparr>dbl := (dbl s4)(instFluxErrKey apCorrInfo := v)\<rparr>;
                            s6 = s5\<lparr>flg := (flg s5)(apCorrFlagKey apCorrInfo := False)\<rparr>
                        in (None,
                            if doFlag
                            then s6\<lparr>flg := (flg s6)(fluxFlagKey apCorrInfo := oldFluxFlagState)\<rparr>
                            else s6))"

text \<open>
  \<^verbatim>\<open>for source in catalog\<close>: the body changes each source in place; the first error ends the
  loop and leaves the later sources as they were.
\<close>

fun for_each_source ::
  "(source \<Rightarrow> 'e option \<times> source) \<Rightarrow> source list \<Rightarrow> 'e option \<times> source list"
where
  "for_each_source body [] = (None, [])"
| "for_each_source body (s # ss) =
     (case body s of
        (Some e, s') \<Rightarrow> (Some e, s' # ss)
      | (None, s') \<Rightarrow> (case for_each_source body ss of (r, ss') \<Rightarrow> (r, s' # ss')))"

text \<open>\<^verbatim>\<open>sep.join(names)\<close>\<close>

fun join :: "string \<Rightarrow> string list \<Rightarrow> string" where
  "join sep [] = []"
| "join sep [x] = x"
| "join sep (x # y # ys) = x @ sep @ join sep (y # ys)"

text \<open>
  The body of the loop over \<^verbatim>\<open>self.apCorrInfoDict.values()\<close>: one field over the whole catalog.
  The state is the catalog and the warnings logged so far (messages below the warning level are
  not kept, and the statistics of the debug level change nothing).
\<close>

definition correctField ::
  "bool \<Rightarrow> bool \<Rightarrow> apCorrMap \<Rightarrow> ApCorrInfo \<Rightarrow> source list \<times> string list \<Rightarrow>
   run_error option \<times> source list \<times> string list"
where
  "correctField UseNaiveFluxErr doFlag apCorrMap apCorrInfo st =
     (case st of (catalog, warnings) \<Rightarrow>
        let apCorrModel = apCorrMap (modelName apCorrInfo);
            apCorrErrModel = apCorrMap (modelSigmaName apCorrInfo)
        in
          case (apCorrModel, apCorrErrModel) of
            (Some m, Some me) \<Rightarrow>
              (case for_each_source (correctSource UseNaiveFluxErr doFlag apCorrInfo m me) catalog of
                 (r, catalog') \<Rightarrow> (r, catalog', warnings))
          | _ \<Rightarrow>
              let missingNames =
                    (if apCorrModel = None then [modelName apCorrInfo] else []) @
                    (if apCorrErrModel = None then [modelSigmaName apCorrInfo] else [])
              in (None,
                  map (\<lambda>source. source\<lparr>flg := (flg source)(apCorrFlagKey apCorrInfo := True)\<rparr>) catalog,
                  warnings @ [''Cannot aperture correct '' @ info_name apCorrInfo @
                         '' because could not find '' @ join '' or '' missingNames @
                         '' in apCorrMap'']))"

text \<open>
  The loop over the fields \<open>infos\<close>, from the catalog and the warnings in \<open>st\<close>; the first error
  ends it.
\<close>

definition field_loop ::
  "bool \<Rightarrow> ApplyApCorrTask \<Rightarrow> apCorrMap \<Rightarrow> ApCorrInfo list \<Rightarrow> source list \<times> string list \<Rightarrow>
   run_error option \<times> source list \<times> string list"
where
  "field_loop UseNaiveFluxErr self apCorrMap infos st =
     for_each (correctField UseNaiveFluxErr (doFlagApCorrFailures (config self)) apCorrMap) infos st"

text \<open>\<^verbatim>\<open>ApplyApCorrTask.run(self, catalog, apCorrMap)\<close>: the loop over all the fields of the task.\<close>

definition run ::
  "bool \<Rightarrow> ApplyApCorrTask \<Rightarrow> source list \<Rightarrow> apCorrMap \<Rightarrow> string list \<Rightarrow>
   run_error option \<times> source list \<times> string list"
where
  "run UseNaiveFluxErr self catalog apCorrMap warnings =
     field_loop UseNaiveFluxErr self apCorrMap (map snd (apCorrInfoDict self)) (catalog, warnings)"

text \<open>
  The keys of an \<^verbatim>\<open>ApCorrInfo\<close> name different columns: the four floating-point columns are
  four fields of the schema, and so are the two flags.
\<close>

definition distinct_keys :: "ApCorrInfo \<Rightarrow> bool" where
  "distinct_keys apCorrInfo =
     (distinct [instFluxKey apCorrInfo, instFluxErrKey apCorrInfo,
                apCorrKey apCorrInfo, apCorrErrKey apCorrInfo] \<and>
      apCorrFlagKey apCorrInfo \<noteq> fluxFlagKey apCorrInfo)"

text \<open>The floating-point columns that the turn of a field can write.\<close>

definition written_columns :: "ApCorrInfo \<Rightarrow> nat list" where
  "written_columns apCorrInfo =
     (if doApCorrColumn apCorrInfo then [apCorrKey apCorrInfo, apCorrErrKey apCorrInfo] else []) @
     [instFluxKey apCorrInfo, instFluxErrKey apCorrInfo]"

section \<open>Concrete plugins, schemas and sources\<close>

text \<open>
  Small inputs on which the definitions are evaluated. The store of the example plugins is a
  list of strings to which a plugin appends what it did; records are numbers.
\<close>

definition ex_ok :: "(nat, string list) plugin" where
  "ex_ok = \<lparr>name = ''ok'', plugType = ''multi'',
            calculate = (\<lambda>c st. (None, st @ [''ok''])),
            fail = (\<lambda>c e st. (None, st))\<rparr>"

definition ex_mem :: "(nat, string list) plugin" where
  "ex_mem = \<lparr>name = ''mem'', plugType = ''multi'',
             calculate = (\<lambda>c st. (Some \<lparr>exc_type = MemoryError, message = ''out of memory''\<rparr>, st)),
             fail = (\<lambda>c e st. (None, st))\<rparr>"

definition ex_meas :: "(nat, string list) plugin" where
  "ex_meas = \<lparr>name = ''meas'', plugType = ''single'',
              calculate = (\<lambda>c st. (Some \<lparr>exc_type = MeasurementError, message = ''bad''\<rparr>, st)),
              fail = (\<lambda>c e st. (None, st @ [''meas_flag'']))\<rparr>"

definition ex_sub :: "(nat, string list) plugin" where
  "ex_sub = \<lparr>name = ''sub'', plugType = ''single'',
             calculate = (\<lambda>c st.
               (Some \<lparr>exc_type = Class ''BadPixel'' [MeasurementError], message = ''odd''\<rparr>, st)),
             fail = (\<lambda>c e st. (None, st @ [''sub_flag'']))\<rparr>"

text \<open>A plugin whose \<^verbatim>\<open>calculate\<close> raises a measurement error and whose \<^verbatim>\<open>fail\<close> raises too.\<close>

definition ex_nofail :: "(nat, string list) plugin" where
  "ex_nofail = \<lparr>name = ''nofail'', plugType = ''multi'',
                calculate = (\<lambda>c st. (Some \<lparr>exc_type = MeasurementError, message = ''bad''\<rparr>, st)),
                fail = (\<lambda>c e st.
                  (Some \<lparr>exc_type = Class ''NotImplementedError'' [], message = ''cannot fail''\<rparr>,
                   st))\<rparr>"

text \<open>A plugin whose \<^verbatim>\<open>calculate\<close> raises an instance of a subclass of \<^verbatim>\<open>MemoryError\<close>.\<close>

definition ex_pool :: "(nat, string list) plugin" where
  "ex_pool = \<lparr>name = ''pool'', plugType = ''multi'',
              calculate = (\<lambda>c st.
                (Some \<lparr>exc_type = Class ''PoolExhausted'' [MemoryError], message = ''pool''\<rparr>, st)),
              fail = (\<lambda>c e st. (None, st))\<rparr>"

definition ex_dict :: "(nat, string list) executionDict" where
  "ex_dict = Mapping.update 5 \<lparr>single = [ex_meas, ex_sub], multi = [ex_ok]\<rparr> Mapping.empty"

definition ex_dict_fatal :: "(nat, string list) executionDict" where
  "ex_dict_fatal = Mapping.update 5 \<lparr>single = [ex_meas], multi = [ex_mem, ex_ok]\<rparr> Mapping.empty"

definition ex_dict_nofail :: "(nat, string list) executionDict" where
  "ex_dict_nofail = Mapping.update 5 \<lparr>single = [], multi = [ex_nofail, ex_ok]\<rparr> Mapping.empty"

definition ex_dict_pool :: "(nat, string list) executionDict" where
  "ex_dict_pool = Mapping.update 5 \<lparr>single = [], multi = [ex_pool, ex_ok]\<rparr> Mapping.empty"

definition ex_dict_levels :: "(nat, string list) executionDict" where
  "ex_dict_levels =
     Mapping.update 4 \<lparr>single = [ex_sub], multi = []\<rparr>
       (Mapping.update 5 \<lparr>single = [ex_meas], multi = [ex_ok]\<rparr> Mapping.empty)"

definition ex_world :: "(nat, string list) world" where
  "ex_world = \<lparr>store = [], events = []\<rparr>"

definition ex_good_class :: "(nat, string list, unit) PluginClass" where
  "ex_good_class = \<lparr>getExecutionOrder = 5, new = (\<lambda>config nm. ex_ok\<lparr>name := nm\<rparr>)\<rparr>"

definition ex_bad_class :: "(nat, string list, unit) PluginClass" where
  "ex_bad_class = \<lparr>getExecutionOrder = 3, new = (\<lambda>config nm. ex_meas\<lparr>name := nm\<rparr>)\<rparr>"

definition ex_config :: "(nat, string list, unit) plugin_config" where
  "ex_config = [(''good'', (), ex_good_class), (''bad'', (), ex_bad_class)]"

definition ex_schema :: schema where
  "ex_schema =
     \<lparr>schema_fields =
        [(''psf_instFlux'', Float64), (''psf_instFluxErr'', Float64), (''psf_flag'', Flag),
         (''gauss_instFlux'', Float64), (''gauss_instFluxErr'', Float64), (''gauss_flag'', Flag)],
      schema_aliases = []\<rparr>"

definition ex_psf_schema :: schema where
  "ex_psf_schema =
     ex_schema\<lparr>schema_fields := schema_fields ex_schema @
       [(''psf_apCorr'', Float64), (''psf_apCorrErr'', Float64), (''psf_flag_apCorr'', Flag)]\<rparr>"

definition ex_psf_info :: ApCorrInfo where
  "ex_psf_info =
     \<lparr>info_name = ''psf'', modelName = ''psf_instFlux'', modelSigmaName = ''psf_instFluxErr'',
      doApCorrColumn = True, instFluxName = ''psf_instFlux'', instFluxErrName = ''psf_instFluxErr'',
      instFluxKey = 0, instFluxErrKey = 1, fluxFlagKey = 2,
      apCorrKey = 6, apCorrErrKey = 7, apCorrFlagKey = 8\<rparr>"

definition ex_gauss_info :: ApCorrInfo where
  "ex_gauss_info =
     \<lparr>info_name = ''gauss'', modelName = ''psf_instFlux'', modelSigmaName = ''psf_instFluxErr'',
      doApCorrColumn = False, instFluxName = ''gauss_instFlux'',
      instFluxErrName = ''gauss_instFluxErr'',
      instFluxKey = 3, instFluxErrKey = 4, fluxFlagKey = 5,
      apCorrKey = 6, apCorrErrKey = 7, apCorrFlagKey = 9\<rparr>"

text \<open>
  Sources for the fields of \<open>ex_psf_info\<close>: one with flux 100.0 and flux error 5.0, one with
  flux 0.0, and one whose \<^verbatim>\<open>apCorr\<close> and \<^verbatim>\<open>apCorrErr\<close> columns hold 2.0 and 0.5.
\<close>

definition ex_source :: source where
  "ex_source =
     \<lparr>centroid = (Fin 10, Fin 20),
      dbl = (\<lambda>k. Fin 0)(0 := Fin 100, 1 := Fin 5),
      flg = (\<lambda>k. False)(2 := True)\<rparr>"

definition ex_dark :: source where
  "ex_dark = \<lparr>centroid = (Fin 30, Fin 40), dbl = (\<lambda>k. Fin 0)(1 := Fin 5), flg = (\<lambda>k. False)\<rparr>"

definition ex_seen :: source where
  "ex_seen =
     \<lparr>centroid = (Fin 50, Fin 60),
      dbl = (\<lambda>k. Fin 0)(0 := Fin 100, 1 := Fin 5, 6 := Fin 2, 7 := Fin 0.5),
      flg = (\<lambda>k. False)\<rparr>"

definition ex_constant :: "f64 \<Rightarrow> model" where
  "ex_constant v = (\<lambda>center. Some v)"

definition ex_outside :: model where
  "ex_outside = (\<lambda>center. None)"

text \<open>A map with the value model \<open>m\<close> and a constant error model for the field \<open>psf\<close>.\<close>

definition ex_apCorrMap :: "model \<Rightarrow> apCorrMap" where
  "ex_apCorrMap m =
     (\<lambda>nm. None)(''psf_instFlux'' := Some m, ''psf_instFluxErr'' := Some (ex_constant (Fin 0)))"

definition ex_task :: ApplyApCorrTask where
  "ex_task =
     \<lparr>config = \<lparr>ignoreList = [], doFlagApCorrFailures = True, proxies = []\<rparr>,
      apCorrInfoDict = [(''psf'', ex_psf_info)]\<rparr>"

text \<open>The task with the field \<open>psf\<close> and its proxy \<open>gauss\<close>.\<close>

definition ex_task_proxy :: ApplyApCorrTask where
  "ex_task_proxy =
     \<lparr>config = \<lparr>ignoreList = [], doFlagApCorrFailures = True, proxies = [(''gauss'', ''psf'')]\<rparr>,
      apCorrInfoDict = [(''psf'', ex_psf_info), (''gauss'', ex_gauss_info)]\<rparr>"

text \<open>
  A schema in which the fields of \<open>slot\<close> are aliases of the fields of \<open>psf\<close>, the
  \<^verbatim>\<open>ApCorrInfo\<close> that the constructor makes for \<open>slot\<close> as a proxy of \<open>psf\<close>, and a task with
  both: the two entries have the same flux columns.
\<close>

definition ex_slot_schema :: schema where
  "ex_slot_schema =
     ex_psf_schema\<lparr>schema_aliases :=
       [(''slot_instFlux'', ''psf_instFlux''), (''slot_instFluxErr'', ''psf_instFluxErr''),
        (''slot_flag'', ''psf_flag'')]\<rparr>"

definition ex_slot_info :: ApCorrInfo where
  "ex_slot_info =
     \<lparr>info_name = ''slot'', modelName = ''psf_instFlux'', modelSigmaName = ''psf_instFluxErr'',
      doApCorrColumn = False, instFluxName = ''slot_instFlux'',
      instFluxErrName = ''slot_instFluxErr'',
      instFluxKey = 0, instFluxErrKey = 1, fluxFlagKey = 2,
      apCorrKey = 6, apCorrErrKey = 7, apCorrFlagKey = 9\<rparr>"

definition ex_task_slot :: ApplyApCorrTask where
  "ex_task_slot =
     \<lparr>config = \<lparr>ignoreList = [], doFlagApCorrFailures = True, proxies = [(''slot'', ''psf'')]\<rparr>,
      apCorrInfoDict = [(''psf'', ex_psf_info), (''slot'', ex_slot_info)]\<rparr>"

text \<open>
  One run of a task over a one-source catalog with the constant correction \<open>v\<close>, and a second
  run after it.
\<close>

definition ex_once ::
  "ApplyApCorrTask \<Rightarrow> f64 \<Rightarrow> source \<Rightarrow> run_error option \<times> source list \<times> string list"
where
  "ex_once self v s = run True self [s] (ex_apCorrMap (ex_constant v)) []"

definition ex_twice ::
  "ApplyApCorrTask \<Rightarrow> f64 \<Rightarrow> source \<Rightarrow> run_error option \<times> source list \<times> string list"
where
  "ex_twice self v s =
     run True self (fst (snd (ex_once self v s))) (ex_apCorrMap (ex_constant v))
       (snd (snd (ex_once self v s)))"

section \<open>Properties of the scheduler\<close>

subsection \<open>Loops\<close>

lemma for_each_append:
  "for_each body (xs @ ys) w =
     (case for_each body xs w of (Some e, w') \<Rightarrow> (Some e, w') | (None, w') \<Rightarrow> for_each body ys w')"
  by (induction xs arbitrary: w) (auto split: prod.splits option.splits)

lemma for_each_concat:
  "for_each (\<lambda>x. for_each body (h x)) xs w = for_each body (concat (map h xs)) w"
  by (induction xs arbitrary: w) (auto simp: for_each_append split: prod.splits option.splits)

lemma for_each_map:
  "for_each (\<lambda>x. body (g x)) xs w = for_each body (map g xs) w"
  by (induction xs arbitrary: w) (auto split: prod.splits option.splits)

lemma for_each_cong:
  "(\<And>x w. x \<in> set xs \<Longrightarrow> f x w = g x w) \<Longrightarrow> for_each f xs w = for_each g xs w"
  by (induction xs arbitrary: w) (auto split: prod.splits option.splits)

lemma for_each_split:
  assumes "k < length xs" and "for_each body (take k xs) w = (None, wk)"
  shows "for_each body xs w =
           (case body (xs ! k) wk of
              (Some e, w') \<Rightarrow> (Some e, w')
            | (None, w') \<Rightarrow> for_each body (drop (Suc k) xs) w')"
proof -
  have "for_each body xs w = for_each body (take k xs @ xs ! k # drop (Suc k) xs) w"
    using assms(1) by (simp add: id_take_nth_drop [symmetric])
  then show ?thesis
    using assms(2) by (simp add: for_each_append)
qed

subsection \<open>The run is the schedule, call by call\<close>

lemma run_level_flat:
  "run_level bucket catalog w =
     for_each (\<lambda>(plug, c). invoke plug c) (level_schedule bucket catalog) w"
proof -
  let ?inv = "\<lambda>(plug, c). invoke plug c"
  have m: "for_each (\<lambda>plug. invoke plug (Catalog catalog)) (multi bucket) v =
        for_each ?inv (map (\<lambda>plug. (plug, Catalog catalog)) (multi bucket)) v" for v
    using for_each_map [of ?inv "\<lambda>plug. (plug, Catalog catalog)" "multi bucket" v] by simp
  have s: "for_each (\<lambda>plug. invoke plug (Record r)) (single bucket) v =
        for_each ?inv (map (\<lambda>plug. (plug, Record r)) (single bucket)) v" for r v
    using for_each_map [of ?inv "\<lambda>plug. (plug, Record r)" "single bucket" v] by simp
  have c: "for_each (\<lambda>r. for_each ?inv (map (\<lambda>plug. (plug, Record r)) (single bucket))) catalog v =
        for_each ?inv (concat (map (\<lambda>r. map (\<lambda>plug. (plug, Record r)) (single bucket)) catalog)) v"
    for v
    by (rule for_each_concat)
  show ?thesis
    unfolding run_level_def level_schedule_def for_each_append m s c ..
qed

lemma ordered_keys_lookup:
  "runlevel \<in> set (Mapping.ordered_keys d) \<Longrightarrow> Mapping.lookup d runlevel \<noteq> None"
  by (cases "finite (Mapping.keys d)") (auto simp: keys_dom_lookup)

lemma callCompute_flat:
  "callCompute d catalog w = for_each (\<lambda>(plug, c). invoke plug c) (schedule d catalog) w"
proof -
  let ?inv = "\<lambda>(plug, c). invoke plug c"
  let ?h = "\<lambda>runlevel. case Mapping.lookup d runlevel of
                         None \<Rightarrow> [] | Some bucket \<Rightarrow> level_schedule bucket catalog"
  have "callCompute d catalog w =
      for_each (\<lambda>runlevel. for_each ?inv (?h runlevel)) (Mapping.ordered_keys d) w"
    unfolding callCompute_def
    by (rule for_each_cong) (auto simp: run_level_flat dest: ordered_keys_lookup)
  then show ?thesis
    by (simp add: schedule_def for_each_concat)
qed

lemma calculations_append: "calculations (xs @ ys) = calculations xs @ calculations ys"
  by (induction xs rule: calculations.induct) auto

lemma invoke_calculations:
  "invoke plug c w = (r, w') \<Longrightarrow>
     calculations (events w') = calculations (events w) @ [(name plug, c)]"
  by (auto simp: invoke_def CCContext_exit_def calculations_append
           split: prod.splits option.splits if_splits)

lemma for_each_calculations:
  "for_each (\<lambda>(plug, c). invoke plug c) xs w = (None, w') \<Longrightarrow>
     calculations (events w') = calculations (events w) @ map (\<lambda>(plug, c). (name plug, c)) xs"
proof (induction xs arbitrary: w)
  case Nil
  then show ?case by simp
next
  case (Cons x xs)
  obtain plug c where x: "x = (plug, c)" by (cases x)
  obtain r w1 where i: "invoke plug c w = (r, w1)" by (cases "invoke plug c w")
  with Cons.prems x have rest: "for_each (\<lambda>(plug, c). invoke plug c) xs w1 = (None, w')"
    by (auto split: option.splits)
  from Cons.IH [OF rest] invoke_calculations [OF i] x show ?case by simp
qed

lemmas ex_plugin_defs = ex_ok_def ex_meas_def ex_sub_def ex_mem_def ex_world_def

lemmas scheduler_defs =
  callCompute_def run_level_def invoke_def CCContext_exit_def FATAL_EXCEPTIONS_def

lemma schedule_ex_dict:
  "schedule ex_dict [7] = [(ex_ok, Catalog [7]), (ex_meas, Record 7), (ex_sub, Record 7)]"
  by (simp add: schedule_def ex_dict_def level_schedule_def)

lemma schedule_ex_dict_fatal:
  "schedule ex_dict_fatal [7] = [(ex_mem, Catalog [7]), (ex_ok, Catalog [7]), (ex_meas, Record 7)]"
  by (simp add: schedule_def ex_dict_fatal_def level_schedule_def)

lemma schedule_ex_dict_levels:
  "schedule ex_dict_levels [7, 8] =
     [(ex_sub, Record 7), (ex_sub, Record 8),
      (ex_ok, Catalog [7, 8]), (ex_meas, Record 7), (ex_meas, Record 8)]"
  by (simp add: schedule_def ex_dict_levels_def level_schedule_def)

subsection \<open>The three ways an exception is handled\<close>

text \<open>
  Claim C1, as amended. Take any call that \<^verbatim>\<open>callCompute\<close> makes, the \<open>k\<close>-th of the
  schedule, reached in the world \<open>wk\<close> after the calls before it let no exception out, and let
  its \<^verbatim>\<open>calculate\<close> raise \<open>e\<close>. If the class of \<open>e\<close> is exactly \<^verbatim>\<open>MemoryError\<close> or
  \<^verbatim>\<open>FatalAlgorithmError\<close>, the run ends there with \<open>e\<close>: its result is the world right after
  this call, so no later plugin or record is processed. If the class is exactly
  \<^verbatim>\<open>MeasurementError\<close>, the plugin's \<^verbatim>\<open>fail\<close> is called with the same target and \<open>e\<close>; when
  \<^verbatim>\<open>fail\<close> returns, the run goes on with the rest of the schedule, and when \<^verbatim>\<open>fail\<close> raises, the
  run ends there with the exception of \<^verbatim>\<open>fail\<close>. For every other class, the strict subclasses
  of the three among them, a warning that names the plugin and gives the message is logged, and
  the run goes on with the rest of the schedule.
\<close>

theorem callCompute_error_policy:
  assumes "k < length (schedule d catalog)"
    and "schedule d catalog ! k = (plug, c)"
    and "for_each (\<lambda>(plug, c). invoke plug c) (take k (schedule d catalog)) w = (None, wk)"
    and "calculate plug c (store wk) = (Some e, st)"
  shows "callCompute d catalog w =
    (let w1 = wk\<lparr>store := st, events := events wk @ [Calculate (name plug) c]\<rparr>;
         rest = drop (Suc k) (schedule d catalog)
     in
       if exc_type e = MemoryError \<or> exc_type e = FatalAlgorithmError then (Some e, w1)
       else if exc_type e = MeasurementError then
         (case fail plug c e st of
            (None, st') \<Rightarrow>
              for_each (\<lambda>(plug, c). invoke plug c) rest
                (w1\<lparr>store := st', events := events w1 @ [Fail (name plug) c e]\<rparr>)
          | (Some e', st') \<Rightarrow>
              (Some e', w1\<lparr>store := st', events := events w1 @ [Fail (name plug) c e]\<rparr>))
       else
         for_each (\<lambda>(plug, c). invoke plug c) rest
           (w1\<lparr>events := events w1 @
                 [Warn (''Error in '' @ name plug @ ''.calculate: '' @ message e)]\<rparr>))"
proof -
  have "callCompute d catalog w =
      (case invoke plug c wk of
         (Some e, w') \<Rightarrow> (Some e, w')
       | (None, w') \<Rightarrow>
           for_each (\<lambda>(plug, c). invoke plug c) (drop (Suc k) (schedule d catalog)) w')"
    using for_each_split [OF assms(1) assms(3)] assms(2) by (simp add: callCompute_flat)
  then show ?thesis
    using assms(4)
    by (simp add: invoke_def CCContext_exit_def FATAL_EXCEPTIONS_def Let_def
          split: prod.splits option.splits)
qed

theorem callCompute_error_policy_witness:
  "callCompute ex_dict_fatal [7] ex_world =
     (Some \<lparr>exc_type = MemoryError, message = ''out of memory''\<rparr>,
      \<lparr>store = [], events = [Calculate ''mem'' (Catalog [7])]\<rparr>)
   \<and> callCompute ex_dict [7] ex_world =
     (None,
      \<lparr>store = [''ok'', ''meas_flag''],
       events = [Calculate ''ok'' (Catalog [7]),
                 Calculate ''meas'' (Record 7),
                 Fail ''meas'' (Record 7) \<lparr>exc_type = MeasurementError, message = ''bad''\<rparr>,
                 Calculate ''sub'' (Record 7),
                 Warn ''Error in sub.calculate: odd'']\<rparr>)"
proof
  have k: "0 < length (schedule ex_dict_fatal [7])"
    by (simp add: schedule_ex_dict_fatal)
  have p: "schedule ex_dict_fatal [7] ! 0 = (ex_mem, Catalog [7])"
    by (simp add: schedule_ex_dict_fatal)
  have b: "for_each (\<lambda>(plug, c). invoke plug c) (take 0 (schedule ex_dict_fatal [7])) ex_world =
             (None, ex_world)"
    by simp
  have r: "calculate ex_mem (Catalog [7]) (store ex_world) =
             (Some \<lparr>exc_type = MemoryError, message = ''out of memory''\<rparr>, [])"
    by (simp add: ex_plugin_defs)
  show "callCompute ex_dict_fatal [7] ex_world =
     (Some \<lparr>exc_type = MemoryError, message = ''out of memory''\<rparr>,
      \<lparr>store = [], events = [Calculate ''mem'' (Catalog [7])]\<rparr>)"
    using callCompute_error_policy [OF k p b r] by (simp add: ex_plugin_defs)
next
  let ?wk = "\<lparr>store = [''ok''], events = [Calculate ''ok'' (Catalog [7 :: nat])]\<rparr>"
  have k: "1 < length (schedule ex_dict [7])"
    by (simp add: schedule_ex_dict)
  have p: "schedule ex_dict [7] ! 1 = (ex_meas, Record 7)"
    by (simp add: schedule_ex_dict)
  have b: "for_each (\<lambda>(plug, c). invoke plug c) (take 1 (schedule ex_dict [7])) ex_world =
             (None, ?wk)"
    by (simp add: schedule_ex_dict scheduler_defs ex_plugin_defs)
  have r: "calculate ex_meas (Record 7) (store ?wk) =
             (Some \<lparr>exc_type = MeasurementError, message = ''bad''\<rparr>, [''ok''])"
    by (simp add: ex_plugin_defs)
  show "callCompute ex_dict [7] ex_world =
     (None,
      \<lparr>store = [''ok'', ''meas_flag''],
       events = [Calculate ''ok'' (Catalog [7]),
                 Calculate ''meas'' (Record 7),
                 Fail ''meas'' (Record 7) \<lparr>exc_type = MeasurementError, message = ''bad''\<rparr>,
                 Calculate ''sub'' (Record 7),
                 Warn ''Error in sub.calculate: odd'']\<rparr>)"
    using callCompute_error_policy [OF k p b r]
    by (simp add: schedule_ex_dict scheduler_defs ex_plugin_defs)
qed

text \<open>
  The claim as it is stated fails in two ways. First, a measurement error does not always let
  the run go on: the plugin \<open>nofail\<close> raises \<^verbatim>\<open>MeasurementError\<close>, its \<^verbatim>\<open>fail\<close> is called and
  raises, the run ends with that exception, and the plugin \<open>ok\<close> that follows is never called.
  Second, an exception that is a \<^verbatim>\<open>MemoryError\<close> by inheritance only is not raised again: the
  plugin \<open>pool\<close> raises an instance of a subclass of \<^verbatim>\<open>MemoryError\<close>, the run logs a warning
  and calls the plugin \<open>ok\<close> after it.
\<close>

theorem callCompute_error_policy_counterexample:
  "callCompute ex_dict_nofail [7] ex_world =
     (Some \<lparr>exc_type = Class ''NotImplementedError'' [], message = ''cannot fail''\<rparr>,
      \<lparr>store = [],
       events = [Calculate ''nofail'' (Catalog [7]),
                 Fail ''nofail'' (Catalog [7])
                   \<lparr>exc_type = MeasurementError, message = ''bad''\<rparr>]\<rparr>)
   \<and> issubclass (Class ''PoolExhausted'' [MemoryError]) MemoryError
   \<and> callCompute ex_dict_pool [7] ex_world =
     (None,
      \<lparr>store = [''ok''],
       events = [Calculate ''pool'' (Catalog [7]),
                 Warn ''Error in pool.calculate: pool'',
                 Calculate ''ok'' (Catalog [7])]\<rparr>)"
  by (simp add: scheduler_defs ex_dict_nofail_def ex_dict_pool_def ex_plugin_defs
        ex_nofail_def ex_pool_def)

subsection \<open>The order of the calls\<close>

text \<open>
  Claim C2, as amended. In every run of \<^verbatim>\<open>callCompute\<close> that returns, that is, that no
  exception ends, the calls of \<^verbatim>\<open>calculate\<close> are exactly the schedule, in its order: the run
  levels ascending; in each level every catalog plugin once with the whole catalog, before any
  record plugin of that level; then every record plugin of the level once for each record.
\<close>

theorem callCompute_order:
  assumes "callCompute d catalog w = (None, w')"
  shows "calculations (events w') =
           calculations (events w) @ map (\<lambda>(plug, c). (name plug, c)) (schedule d catalog)"
  using assms for_each_calculations by (simp add: callCompute_flat)

theorem callCompute_order_witness:
  "fst (callCompute ex_dict_levels [7, 8] ex_world) = None
   \<and> calculations (events (snd (callCompute ex_dict_levels [7, 8] ex_world))) =
       [(''sub'', Record 7), (''sub'', Record 8),
        (''ok'', Catalog [7, 8]), (''meas'', Record 7), (''meas'', Record 8)]"
proof -
  have n: "fst (callCompute ex_dict_levels [7, 8] ex_world) = None"
    by (simp add: scheduler_defs ex_dict_levels_def ex_plugin_defs)
  then have "callCompute ex_dict_levels [7, 8] ex_world =
      (None, snd (callCompute ex_dict_levels [7, 8] ex_world))"
    by (metis prod.collapse)
  from callCompute_order [OF this] n show ?thesis
    by (simp add: schedule_ex_dict_levels ex_plugin_defs)
qed

text \<open>
  The claim as it is stated, for every run, fails on a run that a fatal exception ends: the
  first catalog plugin of the level raises \<^verbatim>\<open>MemoryError\<close>, and neither the second catalog
  plugin nor the record plugin of the same level is called at all.
\<close>

theorem callCompute_order_counterexample:
  "Mapping.lookup ex_dict_fatal 5 = Some \<lparr>single = [ex_meas], multi = [ex_mem, ex_ok]\<rparr>
   \<and> calculations (events (snd (callCompute ex_dict_fatal [7] ex_world))) =
       [(''mem'', Catalog [7])]"
  by (simp add: scheduler_defs ex_dict_fatal_def ex_plugin_defs)

subsection \<open>Classes are compared by identity\<close>

lemma strict_subclass_other:
  assumes "issubclass t base" and "t \<noteq> base"
  shows "\<exists>n bases. t = Class n bases"
  using assms by (cases t) auto

text \<open>
  Claim C10. An exception whose class is a strict subclass of \<^verbatim>\<open>MemoryError\<close>, of
  \<^verbatim>\<open>FatalAlgorithmError\<close> or of \<^verbatim>\<open>MeasurementError\<close> is neither raised again nor handed to the
  plugin's \<^verbatim>\<open>fail\<close>: the \<^verbatim>\<open>with\<close> block ends normally, and all that happens after the call of
  \<^verbatim>\<open>calculate\<close> is the warning.
\<close>

theorem subclass_not_classified:
  assumes "issubclass (exc_type e) base"
    and "exc_type e \<noteq> base"
    and "base = MemoryError \<or> base = FatalAlgorithmError \<or> base = MeasurementError"
    and "calculate plug c (store w) = (Some e, st)"
  shows "invoke plug c w =
           (None, w\<lparr>store := st,
                    events := events w @
                      [Calculate (name plug) c,
                       Warn (''Error in '' @ name plug @ ''.calculate: '' @ message e)]\<rparr>)"
proof -
  obtain n bases where "exc_type e = Class n bases"
    using strict_subclass_other [OF assms(1) assms(2)] by blast
  then show ?thesis
    using assms(4) by (simp add: invoke_def CCContext_exit_def FATAL_EXCEPTIONS_def)
qed

theorem subclass_not_classified_witness:
  "issubclass (Class ''BadPixel'' [MeasurementError]) MeasurementError
   \<and> invoke ex_sub (Record 7) ex_world =
       (None, \<lparr>store = [],
               events = [Calculate ''sub'' (Record 7), Warn ''Error in sub.calculate: odd'']\<rparr>)"
proof -
  let ?e = "\<lparr>exc_type = Class ''BadPixel'' [MeasurementError], message = ''odd''\<rparr>"
  have s: "issubclass (exc_type ?e) MeasurementError" by simp
  have d: "exc_type ?e \<noteq> MeasurementError" by simp
  have r: "calculate ex_sub (Record 7) (store ex_world) = (Some ?e, [])"
    by (simp add: ex_plugin_defs)
  from subclass_not_classified [OF s d _ r] s show ?thesis
    by (simp add: ex_plugin_defs)
qed

subsection \<open>Execution orders below the minimum\<close>

lemma sort_key_head:
  assumes "x \<in> set xs"
  shows "\<exists>y ys. sort_key f xs = y # ys \<and> y \<in> set xs \<and> f y \<le> f x"
proof -
  have s: "sorted (map f (sort_key f xs))" by (rule sorted_sort_key)
  have e: "set (sort_key f xs) = set xs" by simp
  from assms e obtain y ys where c: "sort_key f xs = y # ys"
    by (cases "sort_key f xs") auto
  from c e have y: "y \<in> set xs" by (metis list.set_intros(1))
  from assms e c have "x = y \<or> x \<in> set ys" by (metis set_ConsD)
  with s c have "f y \<le> f x" by auto
  with c y show ?thesis by blast
qed

lemma sorted_plugins_head:
  assumes "x \<in> set xs"
  shows "\<exists>y ys. sorted_plugins xs = y # ys \<and> y \<in> set xs \<and> fst y \<le> fst x"
proof -
  obtain y ys where c: "sorted_plugins xs = y # ys" and y: "y \<in> set xs"
    and le: "(case y of (executionOrder, nm, conf, PluginClass) \<Rightarrow> (executionOrder, nm))
           \<le> (case x of (executionOrder, nm, conf, PluginClass) \<Rightarrow> (executionOrder, nm))"
    unfolding sorted_plugins_def using sort_key_head [OF assms] by blast
  from le have "fst y \<le> fst x"
    by (cases x; cases y) (auto simp: less_eq_prod_def)
  with c y show ?thesis by blast
qed

text \<open>
  Claim C3. If some configured plugin class has an execution order below the minimum, then
  \<^verbatim>\<open>initializePlugins\<close> raises the \<^verbatim>\<open>ValueError\<close>, and it does so before any plugin is
  constructed: \<^verbatim>\<open>self.plugins\<close> is still empty, and the dictionary holds one bucket, with no
  plugin in it. The plugins are visited in ascending execution order, so the first one
  visited is below the minimum.
\<close>

theorem initializePlugins_below_minimum:
  assumes "(nm, conf, PluginClass) \<in> set config_plugins"
    and "getExecutionOrder PluginClass < DEFAULT_CATALOGCALCULATION"
  shows "\<exists>v. v < DEFAULT_CATALOGCALCULATION \<and>
           initializePlugins DEFAULT_CATALOGCALCULATION config_plugins =
             (Some (ValueError v DEFAULT_CATALOGCALCULATION),
              \<lparr>plugins = [],
               executionDict = Mapping.update v \<lparr>single = [], multi = []\<rparr> Mapping.empty\<rparr>)"
proof -
  let ?x = "(getExecutionOrder PluginClass, nm, conf, PluginClass)"
  have "?x \<in> set (apply_plugins config_plugins)"
    using assms(1) by (force simp: apply_plugins_def)
  from sorted_plugins_head [OF this]
  obtain y ys where c: "sorted_plugins (apply_plugins config_plugins) = y # ys"
    and y: "y \<in> set (apply_plugins config_plugins)"
    and le: "fst y \<le> getExecutionOrder PluginClass"
    by auto
  from y obtain nm' conf' cls' where y': "y = (getExecutionOrder cls', nm', conf', cls')"
    by (auto simp: apply_plugins_def)
  with le assms(2) have lt: "getExecutionOrder cls' < DEFAULT_CATALOGCALCULATION" by simp
  have "initializePlugins DEFAULT_CATALOGCALCULATION config_plugins =
      (Some (ValueError (getExecutionOrder cls') DEFAULT_CATALOGCALCULATION),
       \<lparr>plugins = [],
        executionDict =
          Mapping.update (getExecutionOrder cls') \<lparr>single = [], multi = []\<rparr> Mapping.empty\<rparr>)"
    using lt by (simp add: initializePlugins_def c y' initializePlugin_def)
  with lt show ?thesis by blast
qed

theorem initializePlugins_below_minimum_witness:
  "(''bad'', (), ex_bad_class) \<in> set ex_config
   \<and> getExecutionOrder ex_bad_class < 4
   \<and> (\<exists>v<4. initializePlugins 4 ex_config =
         (Some (ValueError v 4),
          \<lparr>plugins = [],
           executionDict = Mapping.update v \<lparr>single = [], multi = []\<rparr> Mapping.empty\<rparr>))"
proof -
  have m: "(''bad'', (), ex_bad_class) \<in> set ex_config" by (simp add: ex_config_def)
  have l: "getExecutionOrder ex_bad_class < 4" by (simp add: ex_bad_class_def)
  from initializePlugins_below_minimum [OF m l] m l show ?thesis by simp
qed

lemma initializePlugins_example:
  "initializePlugins 4 ex_config =
     (Some (ValueError 3 4),
      \<lparr>plugins = [],
       executionDict = Mapping.update 3 \<lparr>single = [], multi = []\<rparr> Mapping.empty\<rparr>)"
  by (simp add: initializePlugins_def sorted_plugins_def apply_plugins_def ex_config_def
        ex_good_class_def ex_bad_class_def initializePlugin_def)

section \<open>Properties of the aperture correction\<close>

subsection \<open>Proxies share the columns of their model\<close>

lemmas schema_defs =
  ApCorrInfo_init_def apCorr_columns_def schema_find_def schema_contains_def
  schema_addField_def aliases_set_def

lemma index_of_less: "index_of nm fs = Some k \<Longrightarrow> k < length fs"
  by (induction fs arbitrary: k) (auto split: if_splits)

lemma schema_find_fresh: "schema_find schema other \<noteq> Some (length (schema_fields schema))"
  using index_of_less [of _ "schema_fields schema" "length (schema_fields schema)"]
  by (auto simp: schema_find_def)

lemma apCorr_columns_proxy:
  assumes "apCorr_columns schema model nm False = (Some (k1, k2), s2)"
  shows "s2 = schema\<lparr>schema_aliases :=
                    AList.update (nm @ ''_apCorrErr'') (model @ ''_apCorrErr'')
                      (AList.update (nm @ ''_apCorr'') (model @ ''_apCorr'')
                         (schema_aliases schema))\<rparr>"
    and "index_of (model @ ''_apCorr'') (schema_fields schema) = Some k1"
    and "index_of (model @ ''_apCorrErr'') (schema_fields schema) = Some k2"
  using assms
  by (simp_all add: apCorr_columns_def aliases_set_def schema_find_def Let_def update_conv'
        split: option.splits)

lemma ApCorrInfo_init_psf:
  "ApCorrInfo_init ex_schema ''psf'' None = (Some ex_psf_info, ex_psf_schema)"
  by (simp add: schema_defs ex_schema_def ex_psf_info_def ex_psf_schema_def)

lemma ApCorrInfo_init_gauss:
  "ApCorrInfo_init ex_psf_schema ''psf'' (Some ''gauss'') =
     (Some ex_gauss_info,
      ex_psf_schema\<lparr>schema_fields := schema_fields ex_psf_schema @ [(''gauss_flag_apCorr'', Flag)],
                    schema_aliases := [(''gauss_apCorr'', ''psf_apCorr''),
                                       (''gauss_apCorrErr'', ''psf_apCorrErr'')]\<rparr>)"
  by (simp add: schema_defs ex_schema_def ex_gauss_info_def ex_psf_schema_def)

text \<open>
  Claim C8. Let \<^verbatim>\<open>ApCorrInfo\<close> be constructed for a field \<open>nm\<close> with a different model field
  \<open>model\<close> whose \<^verbatim>\<open>apCorr\<close> column is in the schema already. Then \<^verbatim>\<open>doApCorrColumn\<close> is false;
  the only field added to the schema is the flag \<^verbatim>\<open>nm_flag_apCorr\<close>, so there are no new
  \<^verbatim>\<open>apCorr\<close> and \<^verbatim>\<open>apCorrErr\<close> columns; \<^verbatim>\<open>nm_apCorr\<close> and \<^verbatim>\<open>nm_apCorrErr\<close> are aliases of the
  model's field names; \<^verbatim>\<open>apCorrKey\<close> and \<^verbatim>\<open>apCorrErrKey\<close> are the keys of the model's two
  columns; and \<^verbatim>\<open>apCorrFlagKey\<close> is a new key, which no name of the schema had, the model's
  flag among them.
\<close>

theorem proxy_aliases_model_columns:
  assumes "ApCorrInfo_init schema model (Some nm) = (Some info, schema')"
    and "nm \<noteq> model"
    and "schema_contains schema (model @ ''_apCorr'')"
  shows "\<not> doApCorrColumn info
       \<and> schema_fields schema' = schema_fields schema @ [(nm @ ''_flag_apCorr'', Flag)]
       \<and> map_of (schema_aliases schema') (nm @ ''_apCorr'') = Some (model @ ''_apCorr'')
       \<and> map_of (schema_aliases schema') (nm @ ''_apCorrErr'') = Some (model @ ''_apCorrErr'')
       \<and> index_of (model @ ''_apCorr'') (schema_fields schema) = Some (apCorrKey info)
       \<and> index_of (model @ ''_apCorrErr'') (schema_fields schema) = Some (apCorrErrKey info)
       \<and> apCorrFlagKey info = length (schema_fields schema)
       \<and> (\<forall>other. schema_find schema other \<noteq> Some (apCorrFlagKey info))"
proof -
  from assms obtain k1 k2 s2 where
      cols: "apCorr_columns schema model nm False = (Some (k1, k2), s2)"
    and flag: "schema_addField s2 (nm @ ''_flag_apCorr'') Flag = (apCorrFlagKey info, schema')"
    and k1: "apCorrKey info = k1" and k2: "apCorrErrKey info = k2"
    and col: "\<not> doApCorrColumn info"
    by (auto simp: ApCorrInfo_init_def Let_def split: option.splits prod.splits)
  note p = apCorr_columns_proxy [OF cols]
  from flag p(1) have f: "apCorrFlagKey info = length (schema_fields schema)"
    and s: "schema' = s2\<lparr>schema_fields := schema_fields schema @ [(nm @ ''_flag_apCorr'', Flag)]\<rparr>"
    by (auto simp: schema_addField_def)
  from s p(1) have a: "schema_aliases schema' =
      AList.update (nm @ ''_apCorrErr'') (model @ ''_apCorrErr'')
        (AList.update (nm @ ''_apCorr'') (model @ ''_apCorr'') (schema_aliases schema))"
    by simp
  have m: "map_of (schema_aliases schema') (nm @ ''_apCorr'') = Some (model @ ''_apCorr'')"
    "map_of (schema_aliases schema') (nm @ ''_apCorrErr'') = Some (model @ ''_apCorrErr'')"
    by (simp_all add: a update_conv')
  have fs: "schema_fields schema' = schema_fields schema @ [(nm @ ''_flag_apCorr'', Flag)]"
    using s by simp
  show ?thesis
    using col fs m p(2,3) k1 k2 f schema_find_fresh [of schema] by simp
qed

theorem proxy_aliases_model_columns_witness:
  "ApCorrInfo_init ex_schema ''psf'' None = (Some ex_psf_info, ex_psf_schema)
   \<and> schema_contains ex_psf_schema ''psf_apCorr''
   \<and> fst (ApCorrInfo_init ex_psf_schema ''psf'' (Some ''gauss'')) = Some ex_gauss_info
   \<and> \<not> doApCorrColumn ex_gauss_info
   \<and> schema_fields (snd (ApCorrInfo_init ex_psf_schema ''psf'' (Some ''gauss''))) =
       schema_fields ex_psf_schema @ [(''gauss_flag_apCorr'', Flag)]
   \<and> apCorrKey ex_gauss_info = apCorrKey ex_psf_info
   \<and> apCorrErrKey ex_gauss_info = apCorrErrKey ex_psf_info
   \<and> apCorrFlagKey ex_gauss_info \<noteq> apCorrFlagKey ex_psf_info"
proof -
  have c: "schema_contains ex_psf_schema (''psf'' @ ''_apCorr'')"
    by (simp add: schema_contains_def schema_find_def ex_psf_schema_def ex_schema_def)
  have d: "''gauss'' \<noteq> ''psf''" by simp
  note t = proxy_aliases_model_columns [OF ApCorrInfo_init_gauss d c]
  from t have k: "apCorrKey ex_gauss_info = apCorrKey ex_psf_info"
    "apCorrErrKey ex_gauss_info = apCorrErrKey ex_psf_info"
    "apCorrFlagKey ex_gauss_info \<noteq> apCorrFlagKey ex_psf_info"
    by (simp_all add: ex_psf_info_def ex_psf_schema_def ex_schema_def)
  from t have n: "\<not> doApCorrColumn ex_gauss_info" by simp
  have f: "schema_fields (snd (ApCorrInfo_init ex_psf_schema ''psf'' (Some ''gauss''))) =
      schema_fields ex_psf_schema @ [(''gauss_flag_apCorr'', Flag)]"
    by (simp add: ApCorrInfo_init_gauss)
  have g: "fst (ApCorrInfo_init ex_psf_schema ''psf'' (Some ''gauss'')) = Some ex_gauss_info"
    by (simp add: ApCorrInfo_init_gauss)
  from c have c': "schema_contains ex_psf_schema ''psf_apCorr''" by simp
  from ApCorrInfo_init_psf c' g n f k show ?thesis by blast
qed

subsection \<open>Float arithmetic on the numbers of the examples\<close>

lemma fround_eval:
  assumes "2 powr of_int e \<le> \<bar>x\<bar>" and "\<bar>x\<bar> < 2 powr of_int (e + 1)"
  shows "fround x =
           (let q = max e (- 1022) - 52;
                y = of_int (round_half_even (\<bar>x\<bar> / 2 powr of_int q)) * 2 powr of_int q
            in if 2 ^ 1024 \<le> y then (if 0 < x then PInf else NInf) else Fin (sgn x * y))"
proof -
  have p: "0 < \<bar>x\<bar>" using assms(1) by (smt (verit) powr_gt_zero)
  then have n: "x \<noteq> 0" by simp
  have "\<lfloor>log 2 \<bar>x\<bar>\<rfloor> = e"
    using assms p by (simp add: floor_log_eq_powr_iff)
  with n show ?thesis by (simp add: fround_def)
qed

text \<open>The literal \<^verbatim>\<open>1.1\<close> is the float nearest to \<open>1.1\<close>.\<close>

lemma fround_1_1: "fround 1.1 = Fin (2476979795053773 / 2 ^ 51)"
  by (subst fround_eval [where e = 0]) (simp_all add: round_half_even_def Let_def powr_neg_numeral)

lemma fmul_100_1_1: "fmul (Fin 100) (fround 1.1) = Fin (7740561859543041 / 2 ^ 46)"
  unfolding fround_1_1 fmul.simps
  by (subst fround_eval [where e = 6]) (simp_all add: round_half_even_def Let_def powr_neg_numeral)

lemma fmul_5_1_1: "fmul (Fin 5) (fround 1.1) = Fin 5.5"
  unfolding fround_1_1 fmul.simps
  by (subst fround_eval [where e = 2]) (simp_all add: round_half_even_def Let_def powr_neg_numeral)

lemma fmul_110_1_1:
  "fmul (Fin (7740561859543041 / 2 ^ 46)) (fround 1.1) = Fin (4257309022748673 / 2 ^ 45)"
  unfolding fround_1_1 fmul.simps
  by (subst fround_eval [where e = 6]) (simp_all add: round_half_even_def Let_def powr_neg_numeral)

lemma flt_1_1: "flt (Fin 0) (fround 1.1)"
  by (simp add: fround_1_1 flt_def)

lemma flt_not_fle: "flt (Fin 0) x \<Longrightarrow> \<not> fle x (Fin 0)"
  by (simp add: flt_def)

subsection \<open>The loops of \<^verbatim>\<open>run\<close>\<close>

lemma for_each_source_append:
  "for_each_source body (xs @ ys) =
     (case for_each_source body xs of
        (Some e, xs') \<Rightarrow> (Some e, xs' @ ys)
      | (None, xs') \<Rightarrow> (case for_each_source body ys of (r, ys') \<Rightarrow> (r, xs' @ ys')))"
  by (induction xs) (auto split: prod.splits option.splits)

lemma for_each_source_split:
  assumes "j < length xs" and "for_each_source body (take j xs) = (None, done)"
  shows "for_each_source body xs =
           (case body (xs ! j) of
              (Some e, s') \<Rightarrow> (Some e, done @ s' # drop (Suc j) xs)
            | (None, s') \<Rightarrow>
                (case for_each_source body (drop (Suc j) xs) of
                   (r, rest) \<Rightarrow> (r, done @ s' # rest)))"
proof -
  have "for_each_source body (take j xs @ xs ! j # drop (Suc j) xs) =
          (case body (xs ! j) of
             (Some e, s') \<Rightarrow> (Some e, done @ s' # drop (Suc j) xs)
           | (None, s') \<Rightarrow>
               (case for_each_source body (drop (Suc j) xs) of
                  (r, rest) \<Rightarrow> (r, done @ s' # rest)))"
    unfolding for_each_source_append assms(2)
    by (simp split: prod.splits option.splits)
  then show ?thesis
    using assms(1) by (simp add: id_take_nth_drop [symmetric])
qed

lemma for_each_source_total:
  assumes "\<And>s. fst (body s) = None"
  shows "for_each_source body ss = (None, map (\<lambda>s. snd (body s)) ss)"
proof (induction ss)
  case Nil
  then show ?case by simp
next
  case (Cons s ss)
  obtain r s' where b: "body s = (r, s')" by (cases "body s")
  with assms [of s] have "r = None" by simp
  with b Cons show ?case by simp
qed

lemma run_split:
  assumes "k < length (apCorrInfoDict self)"
    and "field_loop naive self apCorrMap (take k (map snd (apCorrInfoDict self)))
           (catalog, warnings) = (None, st)"
  shows "run naive self catalog apCorrMap warnings =
           (case correctField naive (doFlagApCorrFailures (config self)) apCorrMap
                   (snd (apCorrInfoDict self ! k)) st of
              (Some e, st') \<Rightarrow> (Some e, st')
            | (None, st') \<Rightarrow>
                field_loop naive self apCorrMap (drop (Suc k) (map snd (apCorrInfoDict self))) st')"
proof -
  have k: "k < length (map snd (apCorrInfoDict self))" using assms(1) by simp
  have n: "map snd (apCorrInfoDict self) ! k = snd (apCorrInfoDict self ! k)"
    using assms(1) by simp
  show ?thesis
    unfolding run_def field_loop_def
    using for_each_split [OF k assms(2) [unfolded field_loop_def]]
    unfolding n .
qed

lemma new_instFluxErr_naive:
  "new_instFluxErr True instFlux instFluxErr apCorr apCorrErr = Inr (fmul instFluxErr apCorr)"
  by (simp add: new_instFluxErr_def)

lemma correctSource_naive_returns: "fst (correctSource True doFlag info m me s) = None"
  by (simp add: correctSource_def new_instFluxErr_naive Let_def split: prod.splits)

lemma correctField_naive:
  assumes "apCorrMap (modelName info) = Some m" and "apCorrMap (modelSigmaName info) = Some me"
  shows "correctField True doFlag apCorrMap info (catalog, warnings) =
           (None, map (\<lambda>s. snd (correctSource True doFlag info m me s)) catalog, warnings)"
  using assms for_each_source_total [of "correctSource True doFlag info m me" catalog]
  by (simp add: correctField_def correctSource_naive_returns)

lemma correctSource_naive_valid:
  assumes "distinct_keys info" and "m (centroid s) = Some a" and "flt (Fin 0) a"
  shows "dbl (snd (correctSource True doFlag info m me s)) (instFluxKey info) =
           fmul (dbl s (instFluxKey info)) a"
    and "dbl (snd (correctSource True doFlag info m me s)) (instFluxErrKey info) =
           fmul (dbl s (instFluxErrKey info)) a"
    and "\<not> flg (snd (correctSource True doFlag info m me s)) (apCorrFlagKey info)"
    and "flg (snd (correctSource True doFlag info m me s)) (fluxFlagKey info) =
           flg s (fluxFlagKey info)"
  using assms flt_not_fle [OF assms(3)]
  by (simp_all add: correctSource_def evaluateApCorr_def new_instFluxErr_naive distinct_keys_def
        Let_def flt_def)

lemma correctSource_invalid:
  assumes "distinct_keys info"
    and "evaluateApCorr naive m me (centroid s) = (a, ae, False)"
    and "fle a (Fin 0) \<or> flt ae (Fin 0)"
  shows "fst (correctSource naive doFlag info m me s) = None"
    and "dbl (snd (correctSource naive doFlag info m me s)) =
           (if doApCorrColumn info
            then (dbl s)(apCorrKey info := a, apCorrErrKey info := ae)
            else dbl s)"
    and "flg (snd (correctSource naive doFlag info m me s)) (apCorrFlagKey info)"
  using assms by (auto simp: correctSource_def Let_def)

lemma correctSource_domain_error:
  assumes "snd (snd (evaluateApCorr naive m me (centroid s)))"
  shows "fst (correctSource naive doFlag info m me s) = None"
    and "dbl (snd (correctSource naive doFlag info m me s)) = dbl s"
    and "flg (snd (correctSource naive doFlag info m me s)) (apCorrFlagKey info)"
  using assms by (auto simp: correctSource_def Let_def split: prod.splits)

lemmas ex_source_defs =
  ex_psf_info_def ex_source_def ex_dark_def ex_seen_def ex_constant_def ex_outside_def
  ex_apCorrMap_def

lemma distinct_keys_psf: "distinct_keys ex_psf_info"
  by (simp add: distinct_keys_def ex_psf_info_def)

lemma run_ex_task:
  "run True ex_task catalog (ex_apCorrMap m) warnings =
     (None,
      map (\<lambda>s. snd (correctSource True True ex_psf_info m (ex_constant (Fin 0)) s)) catalog,
      warnings)"
proof -
  have v: "ex_apCorrMap m (modelName ex_psf_info) = Some m"
    and e: "ex_apCorrMap m (modelSigmaName ex_psf_info) = Some (ex_constant (Fin 0))"
    by (simp_all add: ex_apCorrMap_def ex_psf_info_def)
  show ?thesis
    by (simp add: run_def field_loop_def ex_task_def correctField_naive [OF v e])
qed

lemma ex_task_start:
  "field_loop naive ex_task apCorrMap (take 0 (map snd (apCorrInfoDict ex_task))) (catalog, []) =
     (None, catalog, [])"
  by (simp add: field_loop_def)

lemma ex_task_rest:
  "field_loop naive ex_task apCorrMap (drop (Suc 0) (map snd (apCorrInfoDict ex_task))) st =
     (None, st)"
  by (simp add: field_loop_def ex_task_def)

subsection \<open>A source with a valid correction\<close>

text \<open>
  Claim C4, as amended. In the naive mode, let \<^verbatim>\<open>run\<close> reach a field whose two models are in
  the map, with the catalog \<open>catalog_k\<close> that the fields before it left, and let the value
  model give a correction \<open>apCorr > 0\<close> at the centroid of the \<open>j\<close>-th source (the error of
  the correction is then \<open>0.0\<close>). Then the turn of the field leaves that source with its flux
  and its flux error each multiplied by \<open>apCorr\<close>, a product of 64-bit floats, with the
  aperture correction flag cleared and with the general flux flag as it was, and \<^verbatim>\<open>run\<close> goes
  on with the fields that follow. For flux 100.0, flux error 5.0 and correction 1.1 the flux
  becomes 110.00000000000001, the float \<open>7740561859543041 / 2 ^ 46\<close>, and the flux error 5.5.
\<close>

theorem naive_valid_correction:
  assumes "distinct_keys apCorrInfo"
    and "k < length (apCorrInfoDict self)"
    and "snd (apCorrInfoDict self ! k) = apCorrInfo"
    and "field_loop True self apCorrMap (take k (map snd (apCorrInfoDict self)))
           (catalog, warnings) = (None, catalog_k, warnings_k)"
    and "apCorrMap (modelName apCorrInfo) = Some apCorrModel"
    and "apCorrMap (modelSigmaName apCorrInfo) = Some apCorrErrModel"
    and "j < length catalog_k"
    and "apCorrModel (centroid (catalog_k ! j)) = Some apCorr"
    and "flt (Fin 0) apCorr"
  shows "\<exists>catalog'.
           run True self catalog apCorrMap warnings =
             field_loop True self apCorrMap (drop (Suc k) (map snd (apCorrInfoDict self)))
               (catalog', warnings_k)
         \<and> length catalog' = length catalog_k
         \<and> dbl (catalog' ! j) (instFluxKey apCorrInfo) =
             fmul (dbl (catalog_k ! j) (instFluxKey apCorrInfo)) apCorr
         \<and> dbl (catalog' ! j) (instFluxErrKey apCorrInfo) =
             fmul (dbl (catalog_k ! j) (instFluxErrKey apCorrInfo)) apCorr
         \<and> \<not> flg (catalog' ! j) (apCorrFlagKey apCorrInfo)
         \<and> flg (catalog' ! j) (fluxFlagKey apCorrInfo) =
             flg (catalog_k ! j) (fluxFlagKey apCorrInfo)"
proof -
  let ?doFlag = "doFlagApCorrFailures (config self)"
  let ?f = "\<lambda>s. snd (correctSource True ?doFlag apCorrInfo apCorrModel apCorrErrModel s)"
  have r: "run True self catalog apCorrMap warnings =
      field_loop True self apCorrMap (drop (Suc k) (map snd (apCorrInfoDict self)))
        (map ?f catalog_k, warnings_k)"
    using run_split [OF assms(2) assms(4)] assms(3)
    by (simp add: correctField_naive [OF assms(5) assms(6)])
  note v = correctSource_naive_valid
      [where info = apCorrInfo and m = apCorrModel and s = "catalog_k ! j" and a = apCorr
         and doFlag = ?doFlag and me = apCorrErrModel, OF assms(1) assms(8) assms(9)]
  have n: "map ?f catalog_k ! j = ?f (catalog_k ! j)" using assms(7) by simp
  show ?thesis
    using r v unfolding n [symmetric] by (intro exI [of _ "map ?f catalog_k"]) simp
qed

theorem naive_valid_correction_witness:
  "dbl ex_source (instFluxKey ex_psf_info) = Fin 100
   \<and> dbl ex_source (instFluxErrKey ex_psf_info) = Fin 5
   \<and> fst (run True ex_task [ex_source] (ex_apCorrMap (ex_constant (fround 1.1))) []) = None
   \<and> dbl (fst (snd (run True ex_task [ex_source] (ex_apCorrMap (ex_constant (fround 1.1))) [])) ! 0)
        (instFluxKey ex_psf_info) = Fin (7740561859543041 / 2 ^ 46)
   \<and> dbl (fst (snd (run True ex_task [ex_source] (ex_apCorrMap (ex_constant (fround 1.1))) [])) ! 0)
        (instFluxErrKey ex_psf_info) = Fin 5.5
   \<and> \<not> flg (fst (snd (run True ex_task [ex_source] (ex_apCorrMap (ex_constant (fround 1.1))) [])) ! 0)
        (apCorrFlagKey ex_psf_info)
   \<and> flg (fst (snd (run True ex_task [ex_source] (ex_apCorrMap (ex_constant (fround 1.1))) [])) ! 0)
        (fluxFlagKey ex_psf_info)"
proof -
  let ?map = "ex_apCorrMap (ex_constant (fround 1.1))"
  have k: "0 < length (apCorrInfoDict ex_task)" by (simp add: ex_task_def)
  have a: "snd (apCorrInfoDict ex_task ! 0) = ex_psf_info" by (simp add: ex_task_def)
  have m: "?map (modelName ex_psf_info) = Some (ex_constant (fround 1.1))"
    and e: "?map (modelSigmaName ex_psf_info) = Some (ex_constant (Fin 0))"
    by (simp_all add: ex_apCorrMap_def ex_psf_info_def)
  have j: "0 < length [ex_source]" by simp
  have v: "ex_constant (fround 1.1) (centroid ([ex_source] ! 0)) = Some (fround 1.1)"
    by (simp add: ex_constant_def)
  have f: "dbl ex_source (instFluxKey ex_psf_info) = Fin 100"
    "dbl ex_source (instFluxErrKey ex_psf_info) = Fin 5"
    "flg ex_source (fluxFlagKey ex_psf_info)"
    by (simp_all add: ex_source_def ex_psf_info_def)
  from naive_valid_correction
         [where apCorrInfo = ex_psf_info and self = ex_task and k = 0 and j = 0
            and apCorrMap = ?map and catalog = "[ex_source]" and warnings = "[]"
            and catalog_k = "[ex_source]" and warnings_k = "[]"
            and apCorrModel = "ex_constant (fround 1.1)" and apCorrErrModel = "ex_constant (Fin 0)"
            and apCorr = "fround 1.1",
          OF distinct_keys_psf k a ex_task_start m e j v flt_1_1]
  obtain catalog' where
    "run True ex_task [ex_source] ?map [] = (None, catalog', [])"
    "dbl (catalog' ! 0) (instFluxKey ex_psf_info) = fmul (Fin 100) (fround 1.1)"
    "dbl (catalog' ! 0) (instFluxErrKey ex_psf_info) = fmul (Fin 5) (fround 1.1)"
    "\<not> flg (catalog' ! 0) (apCorrFlagKey ex_psf_info)"
    "flg (catalog' ! 0) (fluxFlagKey ex_psf_info)"
    using f by (auto simp: ex_task_rest)
  with f show ?thesis by (simp add: fmul_100_1_1 fmul_5_1_1)
qed

text \<open>
  The numbers of the claim as it is stated do not come out: with the floats 100.0 and 1.1 the
  flux after the run is not the float 110.0.
\<close>

theorem naive_valid_correction_counterexample:
  "dbl (fst (snd (run True ex_task [ex_source] (ex_apCorrMap (ex_constant (fround 1.1))) [])) ! 0)
      (instFluxKey ex_psf_info) \<noteq> Fin 110"
proof -
  have v: "ex_constant (fround 1.1) (centroid ex_source) = Some (fround 1.1)"
    by (simp add: ex_constant_def)
  have "dbl (snd (correctSource True True ex_psf_info (ex_constant (fround 1.1))
                    (ex_constant (Fin 0)) ex_source)) (instFluxKey ex_psf_info) =
          fmul (dbl ex_source (instFluxKey ex_psf_info)) (fround 1.1)"
    by (rule correctSource_naive_valid(1)
          [where info = ex_psf_info and m = "ex_constant (fround 1.1)" and s = ex_source
             and a = "fround 1.1", OF distinct_keys_psf v flt_1_1])
  also have "\<dots> = Fin (7740561859543041 / 2 ^ 46)"
    by (simp add: ex_source_def ex_psf_info_def fmul_100_1_1)
  finally show ?thesis by (simp add: run_ex_task)
qed

subsection \<open>A source that is skipped\<close>

lemma run_source_turn:
  assumes "k < length (apCorrInfoDict self)"
    and "field_loop naive self apCorrMap (take k (map snd (apCorrInfoDict self)))
           (catalog, warnings) = (None, catalog_k, warnings_k)"
    and "apCorrMap (modelName (snd (apCorrInfoDict self ! k))) = Some m"
    and "apCorrMap (modelSigmaName (snd (apCorrInfoDict self ! k))) = Some me"
    and "j < length catalog_k"
    and "for_each_source
           (correctSource naive (doFlagApCorrFailures (config self))
              (snd (apCorrInfoDict self ! k)) m me)
           (take j catalog_k) = (None, done)"
    and "correctSource naive (doFlagApCorrFailures (config self))
           (snd (apCorrInfoDict self ! k)) m me (catalog_k ! j) = (None, source')"
  shows "run naive self catalog apCorrMap warnings =
           (case for_each_source
                   (correctSource naive (doFlagApCorrFailures (config self))
                      (snd (apCorrInfoDict self ! k)) m me)
                   (drop (Suc j) catalog_k) of
              (Some e, rest) \<Rightarrow> (Some e, done @ source' # rest, warnings_k)
            | (None, rest) \<Rightarrow>
                field_loop naive self apCorrMap (drop (Suc k) (map snd (apCorrInfoDict self)))
                  (done @ source' # rest, warnings_k))"
proof -
  let ?body = "correctSource naive (doFlagApCorrFailures (config self))
                 (snd (apCorrInfoDict self ! k)) m me"
  obtain r rest where t: "for_each_source ?body (drop (Suc j) catalog_k) = (r, rest)"
    by (cases "for_each_source ?body (drop (Suc j) catalog_k)")
  have s: "for_each_source ?body catalog_k = (r, done @ source' # rest)"
    using for_each_source_split [OF assms(5) assms(6)] assms(7) t by simp
  have f: "correctField naive (doFlagApCorrFailures (config self)) apCorrMap
             (snd (apCorrInfoDict self ! k)) (catalog_k, warnings_k) =
           (r, done @ source' # rest, warnings_k)"
    using assms(3) assms(4) s by (simp add: correctField_def)
  show ?thesis
    unfolding run_split [OF assms(1) assms(2)] f t
    by (cases r) simp_all
qed

text \<open>
  Claim C5. Let \<^verbatim>\<open>run\<close> reach a field whose two models are in the map, and in its turn the
  \<open>j\<close>-th source, the sources before it having raised nothing. When the evaluation succeeds
  but gives \<open>apCorr \<le> 0\<close> or \<open>apCorrErr < 0\<close>, the source is left with its flux and its flux
  error as before and with the aperture correction flag true; the only floating-point columns
  written are \<^verbatim>\<open>apCorr\<close> and \<^verbatim>\<open>apCorrErr\<close>, with the evaluated values, and only when this
  \<^verbatim>\<open>ApCorrInfo\<close> has columns of its own. \<^verbatim>\<open>run\<close> then goes on with the sources and the fields
  that follow.
\<close>

theorem invalid_correction_skipped:
  assumes "distinct_keys apCorrInfo"
    and "k < length (apCorrInfoDict self)"
    and "snd (apCorrInfoDict self ! k) = apCorrInfo"
    and "field_loop naive self apCorrMap (take k (map snd (apCorrInfoDict self)))
           (catalog, warnings) = (None, catalog_k, warnings_k)"
    and "apCorrMap (modelName apCorrInfo) = Some apCorrModel"
    and "apCorrMap (modelSigmaName apCorrInfo) = Some apCorrErrModel"
    and "j < length catalog_k"
    and "for_each_source
           (correctSource naive (doFlagApCorrFailures (config self)) apCorrInfo
              apCorrModel apCorrErrModel)
           (take j catalog_k) = (None, done)"
    and "evaluateApCorr naive apCorrModel apCorrErrModel (centroid (catalog_k ! j)) =
           (apCorr, apCorrErr, False)"
    and "fle apCorr (Fin 0) \<or> flt apCorrErr (Fin 0)"
  shows "\<exists>source'.
           dbl source' (instFluxKey apCorrInfo) = dbl (catalog_k ! j) (instFluxKey apCorrInfo)
         \<and> dbl source' (instFluxErrKey apCorrInfo) =
             dbl (catalog_k ! j) (instFluxErrKey apCorrInfo)
         \<and> flg source' (apCorrFlagKey apCorrInfo)
         \<and> dbl source' =
             (if doApCorrColumn apCorrInfo
              then (dbl (catalog_k ! j))
                     (apCorrKey apCorrInfo := apCorr, apCorrErrKey apCorrInfo := apCorrErr)
              else dbl (catalog_k ! j))
         \<and> run naive self catalog apCorrMap warnings =
             (case for_each_source
                     (correctSource naive (doFlagApCorrFailures (config self)) apCorrInfo
                        apCorrModel apCorrErrModel)
                     (drop (Suc j) catalog_k) of
                (Some e, rest) \<Rightarrow> (Some e, done @ source' # rest, warnings_k)
              | (None, rest) \<Rightarrow>
                  field_loop naive self apCorrMap
                    (drop (Suc k) (map snd (apCorrInfoDict self)))
                    (done @ source' # rest, warnings_k))"
proof -
  let ?doFlag = "doFlagApCorrFailures (config self)"
  let ?c = "correctSource naive ?doFlag apCorrInfo apCorrModel apCorrErrModel (catalog_k ! j)"
  note i = correctSource_invalid
      [where info = apCorrInfo and naive = naive and m = apCorrModel and me = apCorrErrModel
         and s = "catalog_k ! j" and a = apCorr and ae = apCorrErr and doFlag = ?doFlag,
       OF assms(1) assms(9) assms(10)]
  have c: "?c = (None, snd ?c)" using i(1) by (metis prod.collapse)
  note r = run_source_turn
      [OF assms(2) assms(4) assms(5) [folded assms(3)] assms(6) [folded assms(3)] assms(7)
          assms(8) [folded assms(3)] c [folded assms(3)]]
  have d: "dbl (snd ?c) (instFluxKey apCorrInfo) = dbl (catalog_k ! j) (instFluxKey apCorrInfo)"
    "dbl (snd ?c) (instFluxErrKey apCorrInfo) = dbl (catalog_k ! j) (instFluxErrKey apCorrInfo)"
    using assms(1) by (auto simp: i(2) distinct_keys_def)
  show ?thesis
    using r [unfolded assms(3)] d i(2) i(3) by (intro exI [of _ "snd ?c"]) simp
qed

theorem invalid_correction_skipped_witness:
  "evaluateApCorr True (ex_constant (Fin (- 1))) (ex_constant (Fin 0)) (centroid ex_source) =
     (Fin (- 1), Fin 0, False)
   \<and> fle (Fin (- 1)) (Fin 0)
   \<and> fst (run True ex_task [ex_source] (ex_apCorrMap (ex_constant (Fin (- 1)))) []) = None
   \<and> dbl (fst (snd (run True ex_task [ex_source] (ex_apCorrMap (ex_constant (Fin (- 1)))) [])) ! 0)
        (instFluxKey ex_psf_info) = Fin 100
   \<and> dbl (fst (snd (run True ex_task [ex_source] (ex_apCorrMap (ex_constant (Fin (- 1)))) [])) ! 0)
        (instFluxErrKey ex_psf_info) = Fin 5
   \<and> flg (fst (snd (run True ex_task [ex_source] (ex_apCorrMap (ex_constant (Fin (- 1)))) [])) ! 0)
        (apCorrFlagKey ex_psf_info)
   \<and> dbl (fst (snd (run True ex_task [ex_source] (ex_apCorrMap (ex_constant (Fin (- 1)))) [])) ! 0)
        (apCorrKey ex_psf_info) = Fin (- 1)"
proof -
  let ?map = "ex_apCorrMap (ex_constant (Fin (- 1)))"
  have k: "0 < length (apCorrInfoDict ex_task)" by (simp add: ex_task_def)
  have a: "snd (apCorrInfoDict ex_task ! 0) = ex_psf_info" by (simp add: ex_task_def)
  have m: "?map (modelName ex_psf_info) = Some (ex_constant (Fin (- 1)))"
    and e: "?map (modelSigmaName ex_psf_info) = Some (ex_constant (Fin 0))"
    by (simp_all add: ex_apCorrMap_def ex_psf_info_def)
  have j: "0 < length [ex_source]" by simp
  have b: "for_each_source
             (correctSource True (doFlagApCorrFailures (config ex_task)) ex_psf_info
                (ex_constant (Fin (- 1))) (ex_constant (Fin 0)))
             (take 0 [ex_source]) = (None, [])"
    by simp
  have v: "evaluateApCorr True (ex_constant (Fin (- 1))) (ex_constant (Fin 0))
             (centroid ([ex_source] ! 0)) = (Fin (- 1), Fin 0, False)"
    by (simp add: evaluateApCorr_def ex_constant_def)
  have n: "fle (Fin (- 1)) (Fin 0) \<or> flt (Fin 0) (Fin 0)" by simp
  from invalid_correction_skipped
         [where apCorrInfo = ex_psf_info and self = ex_task and k = 0 and j = 0 and naive = True
            and apCorrMap = ?map and catalog = "[ex_source]" and warnings = "[]"
            and catalog_k = "[ex_source]" and warnings_k = "[]" and ?done = "[]"
            and apCorrModel = "ex_constant (Fin (- 1))" and apCorrErrModel = "ex_constant (Fin 0)"
            and apCorr = "Fin (- 1)" and apCorrErr = "Fin 0",
          OF distinct_keys_psf k a ex_task_start m e j b v n]
  obtain source' where
    "run True ex_task [ex_source] ?map [] = (None, [source'], [])"
    "dbl source' (instFluxKey ex_psf_info) = dbl ex_source (instFluxKey ex_psf_info)"
    "dbl source' (instFluxErrKey ex_psf_info) = dbl ex_source (instFluxErrKey ex_psf_info)"
    "flg source' (apCorrFlagKey ex_psf_info)"
    "dbl source' (apCorrKey ex_psf_info) = Fin (- 1)"
    by (auto simp: ex_task_rest ex_psf_info_def)
  with v show ?thesis by (simp add: ex_source_def ex_psf_info_def)
qed

text \<open>
  Claim C6, as amended. Let \<^verbatim>\<open>run\<close> reach a field whose two models are in the map, and in its
  turn the \<open>j\<close>-th source, the sources before it having raised nothing. When the evaluation
  of a model raises a domain error at the centroid of the source, no floating-point column of
  the source is written: the flux and the flux error are as before, and so are the \<^verbatim>\<open>apCorr\<close>
  and \<^verbatim>\<open>apCorrErr\<close> columns, whatever they held (1.0 and 0.0 are the values that the local
  variables have when the value model raises, and they are stored nowhere). The aperture
  correction flag is true, no error leaves the body, and \<^verbatim>\<open>run\<close> goes on with the sources and
  the fields that follow.
\<close>

theorem domain_error_skips_source:
  assumes "k < length (apCorrInfoDict self)"
    and "snd (apCorrInfoDict self ! k) = apCorrInfo"
    and "field_loop naive self apCorrMap (take k (map snd (apCorrInfoDict self)))
           (catalog, warnings) = (None, catalog_k, warnings_k)"
    and "apCorrMap (modelName apCorrInfo) = Some apCorrModel"
    and "apCorrMap (modelSigmaName apCorrInfo) = Some apCorrErrModel"
    and "j < length catalog_k"
    and "for_each_source
           (correctSource naive (doFlagApCorrFailures (config self)) apCorrInfo
              apCorrModel apCorrErrModel)
           (take j catalog_k) = (None, done)"
    and "apCorrModel (centroid (catalog_k ! j)) = None
         \<or> (\<not> naive \<and> apCorrErrModel (centroid (catalog_k ! j)) = None)"
  shows "\<exists>source'.
           dbl source' = dbl (catalog_k ! j)
         \<and> flg source' (apCorrFlagKey apCorrInfo)
         \<and> (apCorrModel (centroid (catalog_k ! j)) = None \<longrightarrow>
              evaluateApCorr naive apCorrModel apCorrErrModel (centroid (catalog_k ! j)) =
                (Fin 1, Fin 0, True))
         \<and> run naive self catalog apCorrMap warnings =
             (case for_each_source
                     (correctSource naive (doFlagApCorrFailures (config self)) apCorrInfo
                        apCorrModel apCorrErrModel)
                     (drop (Suc j) catalog_k) of
                (Some e, rest) \<Rightarrow> (Some e, done @ source' # rest, warnings_k)
              | (None, rest) \<Rightarrow>
                  field_loop naive self apCorrMap
                    (drop (Suc k) (map snd (apCorrInfoDict self)))
                    (done @ source' # rest, warnings_k))"
proof -
  let ?doFlag = "doFlagApCorrFailures (config self)"
  let ?c = "correctSource naive ?doFlag apCorrInfo apCorrModel apCorrErrModel (catalog_k ! j)"
  have d: "snd (snd (evaluateApCorr naive apCorrModel apCorrErrModel (centroid (catalog_k ! j))))"
    using assms(8) by (auto simp: evaluateApCorr_def Let_def split: option.splits)
  note i = correctSource_domain_error
      [where info = apCorrInfo and naive = naive and m = apCorrModel and me = apCorrErrModel
         and s = "catalog_k ! j" and doFlag = ?doFlag, OF d]
  have c: "?c = (None, snd ?c)" using i(1) by (metis prod.collapse)
  note r = run_source_turn
      [OF assms(1) assms(3) assms(4) [folded assms(2)] assms(5) [folded assms(2)] assms(6)
          assms(7) [folded assms(2)] c [folded assms(2)]]
  have l: "apCorrModel (centroid (catalog_k ! j)) = None \<longrightarrow>
      evaluateApCorr naive apCorrModel apCorrErrModel (centroid (catalog_k ! j)) =
        (Fin 1, Fin 0, True)"
    by (simp add: evaluateApCorr_def)
  show ?thesis
    using r [unfolded assms(2)] i(2) i(3) l by (intro exI [of _ "snd ?c"]) simp
qed

theorem domain_error_skips_source_witness:
  "ex_outside (centroid ex_seen) = None
   \<and> fst (run True ex_task [ex_seen] (ex_apCorrMap ex_outside) []) = None
   \<and> dbl (fst (snd (run True ex_task [ex_seen] (ex_apCorrMap ex_outside) [])) ! 0) = dbl ex_seen
   \<and> flg (fst (snd (run True ex_task [ex_seen] (ex_apCorrMap ex_outside) [])) ! 0)
       (apCorrFlagKey ex_psf_info)"
proof -
  let ?map = "ex_apCorrMap ex_outside"
  have k: "0 < length (apCorrInfoDict ex_task)" by (simp add: ex_task_def)
  have a: "snd (apCorrInfoDict ex_task ! 0) = ex_psf_info" by (simp add: ex_task_def)
  have m: "?map (modelName ex_psf_info) = Some ex_outside"
    and e: "?map (modelSigmaName ex_psf_info) = Some (ex_constant (Fin 0))"
    by (simp_all add: ex_apCorrMap_def ex_psf_info_def)
  have j: "0 < length [ex_seen]" by simp
  have b: "for_each_source
             (correctSource True (doFlagApCorrFailures (config ex_task)) ex_psf_info
                ex_outside (ex_constant (Fin 0)))
             (take 0 [ex_seen]) = (None, [])"
    by simp
  have o: "ex_outside (centroid ([ex_seen] ! 0)) = None
         \<or> (\<not> True \<and> ex_constant (Fin 0) (centroid ([ex_seen] ! 0)) = None)"
    by (simp add: ex_outside_def)
  from domain_error_skips_source
         [where apCorrInfo = ex_psf_info and self = ex_task and k = 0 and j = 0 and naive = True
            and apCorrMap = ?map and catalog = "[ex_seen]" and warnings = "[]"
            and catalog_k = "[ex_seen]" and warnings_k = "[]" and ?done = "[]"
            and apCorrModel = ex_outside and apCorrErrModel = "ex_constant (Fin 0)",
          OF k a ex_task_start m e j b o]
  obtain source' where
    "run True ex_task [ex_seen] ?map [] = (None, [source'], [])"
    "dbl source' = dbl ex_seen"
    "flg source' (apCorrFlagKey ex_psf_info)"
    by (auto simp: ex_task_rest)
  then show ?thesis by (simp add: ex_outside_def)
qed

text \<open>
  The claim as it is stated has the source left with \<open>apCorr = 1.0\<close> and
  \<open>apCorrErr = 0.0\<close>. A source whose \<^verbatim>\<open>apCorr\<close> and \<^verbatim>\<open>apCorrErr\<close> columns hold 2.0 and 0.5
  has them unchanged after a run in which the model raises a domain error for it.
\<close>

theorem domain_error_skips_source_counterexample:
  "dbl ex_seen (apCorrKey ex_psf_info) = Fin 2
   \<and> dbl ex_seen (apCorrErrKey ex_psf_info) = Fin 0.5
   \<and> ex_outside (centroid ex_seen) = None
   \<and> dbl (fst (snd (run True ex_task [ex_seen] (ex_apCorrMap ex_outside) [])) ! 0)
       (apCorrKey ex_psf_info) = Fin 2
   \<and> dbl (fst (snd (run True ex_task [ex_seen] (ex_apCorrMap ex_outside) [])) ! 0)
       (apCorrErrKey ex_psf_info) = Fin 0.5
   \<and> Fin 2 \<noteq> Fin 1 \<and> Fin 0.5 \<noteq> Fin 0"
  by (simp add: run_ex_task correctSource_def evaluateApCorr_def Let_def ex_outside_def
        ex_seen_def ex_psf_info_def)

subsection \<open>A field without a model\<close>

text \<open>
  Claim C7. Let \<^verbatim>\<open>run\<close> reach a field for which the map lacks the value model or the error
  model. Then the turn of the field logs one warning and sets the aperture correction flag of
  every source, and it changes nothing else: no floating-point column of any source, so no
  flux and no flux error. \<^verbatim>\<open>run\<close> goes on with the fields that follow.
\<close>

theorem missing_model_flags_all:
  assumes "k < length (apCorrInfoDict self)"
    and "snd (apCorrInfoDict self ! k) = apCorrInfo"
    and "field_loop naive self apCorrMap (take k (map snd (apCorrInfoDict self)))
           (catalog, warnings) = (None, catalog_k, warnings_k)"
    and "apCorrMap (modelName apCorrInfo) = None \<or> apCorrMap (modelSigmaName apCorrInfo) = None"
  shows "run naive self catalog apCorrMap warnings =
           field_loop naive self apCorrMap (drop (Suc k) (map snd (apCorrInfoDict self)))
             (map (\<lambda>source. source\<lparr>flg := (flg source)(apCorrFlagKey apCorrInfo := True)\<rparr>)
                catalog_k,
              warnings_k @
                [''Cannot aperture correct '' @ info_name apCorrInfo @
                 '' because could not find '' @
                 join '' or ''
                   ((if apCorrMap (modelName apCorrInfo) = None
                     then [modelName apCorrInfo] else []) @
                    (if apCorrMap (modelSigmaName apCorrInfo) = None
                     then [modelSigmaName apCorrInfo] else [])) @
                 '' in apCorrMap''])"
proof -
  have "correctField naive (doFlagApCorrFailures (config self)) apCorrMap apCorrInfo
          (catalog_k, warnings_k) =
        (None,
         map (\<lambda>source. source\<lparr>flg := (flg source)(apCorrFlagKey apCorrInfo := True)\<rparr>) catalog_k,
         warnings_k @
           [''Cannot aperture correct '' @ info_name apCorrInfo @
            '' because could not find '' @
            join '' or ''
              ((if apCorrMap (modelName apCorrInfo) = None
                then [modelName apCorrInfo] else []) @
               (if apCorrMap (modelSigmaName apCorrInfo) = None
                then [modelSigmaName apCorrInfo] else [])) @
            '' in apCorrMap''])"
    using assms(4) by (auto simp: correctField_def Let_def split: option.splits)
  then show ?thesis
    unfolding run_split [OF assms(1) assms(3)] assms(2) by simp
qed

theorem missing_model_flags_all_witness:
  "fst (run True ex_task [ex_source, ex_dark] (\<lambda>nm. None) []) = None
   \<and> map dbl (fst (snd (run True ex_task [ex_source, ex_dark] (\<lambda>nm. None) []))) =
       [dbl ex_source, dbl ex_dark]
   \<and> map (\<lambda>s. flg s (apCorrFlagKey ex_psf_info))
       (fst (snd (run True ex_task [ex_source, ex_dark] (\<lambda>nm. None) []))) = [True, True]
   \<and> snd (snd (run True ex_task [ex_source, ex_dark] (\<lambda>nm. None) [])) =
       [''Cannot aperture correct psf because could not find '' @
        ''psf_instFlux or psf_instFluxErr in apCorrMap'']"
proof -
  have k: "0 < length (apCorrInfoDict ex_task)" by (simp add: ex_task_def)
  have a: "snd (apCorrInfoDict ex_task ! 0) = ex_psf_info" by (simp add: ex_task_def)
  have n: "(\<lambda>nm. None :: model option) (modelName ex_psf_info) = None
         \<or> (\<lambda>nm. None :: model option) (modelSigmaName ex_psf_info) = None"
    by simp
  show ?thesis
    unfolding missing_model_flags_all
                [where apCorrMap = "\<lambda>nm. None" and apCorrInfo = ex_psf_info and self = ex_task
                   and k = 0 and naive = True and catalog = "[ex_source, ex_dark]"
                   and warnings = "[]",
                 OF k a ex_task_start n]
    by (simp add: ex_task_rest ex_psf_info_def)
qed

lemma round_half_even_of_int: "round_half_even (of_int n) = n"
  by (simp add: round_half_even_def)

lemma fround_exact:
  assumes "2 powr of_int e \<le> \<bar>x\<bar>" and "\<bar>x\<bar> < 2 powr of_int (e + 1)"
    and "- 1022 \<le> e" and "e < 1024"
    and "\<bar>x\<bar> / 2 powr of_int (e - 52) \<in> \<int>"
  shows "fround x = Fin x"
proof -
  from assms(5) obtain n where n: "\<bar>x\<bar> / 2 powr of_int (e - 52) = of_int n"
    by (auto elim: Ints_cases)
  then have y: "of_int n * 2 powr of_int (e - 52) = \<bar>x\<bar>"
    by (simp add: field_simps)
  have "2 powr of_int (e + 1) \<le> (2::real) powr of_int 1024"
    using assms(4) by (intro powr_mono) simp_all
  also have "(2::real) powr of_int 1024 = 2 ^ 1024" by simp
  finally have b: "\<bar>x\<bar> < 2 ^ 1024" using assms(2) by simp
  have m: "max e (- 1022) - 52 = e - 52" using assms(3) by simp
  have s: "sgn x * \<bar>x\<bar> = x" by (simp add: sgn_real_def)
  show ?thesis
    unfolding fround_eval [OF assms(1) assms(2)] Let_def m n round_half_even_of_int y
    using b s by simp
qed

text \<open>The products of the second example are exact.\<close>

lemma fround_small:
  "fround 0 = Fin 0"
  "fround 10 = Fin 10" "fround 20 = Fin 20" "fround 40 = Fin 40" "fround 80 = Fin 80"
  "fround 200 = Fin 200" "fround 400 = Fin 400" "fround 800 = Fin 800" "fround 1600 = Fin 1600"
  by (simp add: fround_def, rule fround_exact [where e = 3], simp_all add: powr_neg_numeral)
     (rule fround_exact [where e = 4], simp_all add: powr_neg_numeral,
      rule fround_exact [where e = 5], simp_all add: powr_neg_numeral,
      rule fround_exact [where e = 6], simp_all add: powr_neg_numeral,
      rule fround_exact [where e = 7], simp_all add: powr_neg_numeral,
      rule fround_exact [where e = 8], simp_all add: powr_neg_numeral,
      rule fround_exact [where e = 9], simp_all add: powr_neg_numeral,
      rule fround_exact [where e = 10], simp_all add: powr_neg_numeral)

subsection \<open>Two runs\<close>

lemma correctSource_frame:
  "centroid (snd (correctSource naive doFlag info m me s)) = centroid s"
  "key \<notin> set (written_columns info) \<Longrightarrow>
     dbl (snd (correctSource naive doFlag info m me s)) key = dbl s key"
  by (auto simp: correctSource_def written_columns_def Let_def split: prod.splits sum.splits)

lemma correctField_naive_frame:
  "\<exists>g w'. correctField True doFlag apCorrMap info (catalog, w) = (None, map g catalog, w')
     \<and> (\<forall>s. centroid (g s) = centroid s)
     \<and> (key \<notin> set (written_columns info) \<longrightarrow> (\<forall>s. dbl (g s) key = dbl s key))"
proof (cases "apCorrMap (modelName info) = None \<or> apCorrMap (modelSigmaName info) = None")
  case True
  let ?g = "\<lambda>source. source\<lparr>flg := (flg source)(apCorrFlagKey info := True)\<rparr>"
  from True have "\<exists>w'. correctField True doFlag apCorrMap info (catalog, w) =
      (None, map ?g catalog, w')"
    by (auto simp: correctField_def Let_def split: option.splits)
  then show ?thesis by (intro exI [of _ ?g]) auto
next
  case False
  then obtain m me where m: "apCorrMap (modelName info) = Some m"
    and me: "apCorrMap (modelSigmaName info) = Some me"
    by auto
  let ?g = "\<lambda>s. snd (correctSource True doFlag info m me s)"
  show ?thesis
    using correctField_naive [OF m me, of doFlag catalog w] correctSource_frame
    by (intro exI [of _ ?g] exI [of _ w]) simp
qed

lemma field_loop_naive_frame:
  assumes "\<forall>info \<in> set infos. key \<notin> set (written_columns info)"
  shows "\<exists>catalog' w'. field_loop True self apCorrMap infos (catalog, w) = (None, catalog', w')
     \<and> length catalog' = length catalog
     \<and> (\<forall>i < length catalog. centroid (catalog' ! i) = centroid (catalog ! i)
                            \<and> dbl (catalog' ! i) key = dbl (catalog ! i) key)"
  using assms
proof (induction infos arbitrary: catalog w)
  case Nil
  then show ?case by (simp add: field_loop_def)
next
  case (Cons info infos)
  from Cons.prems have here: "key \<notin> set (written_columns info)"
    and rest: "\<forall>info \<in> set infos. key \<notin> set (written_columns info)"
    by simp_all
  from correctField_naive_frame [of "doFlagApCorrFailures (config self)" apCorrMap info catalog w key]
       here
  obtain g w1 where f: "correctField True (doFlagApCorrFailures (config self)) apCorrMap info
        (catalog, w) = (None, map g catalog, w1)"
    and c: "\<forall>s. centroid (g s) = centroid s" and d: "\<forall>s. dbl (g s) key = dbl s key"
    by blast
  from Cons.IH [OF rest, of "map g catalog" w1]
  obtain catalog' w' where l: "field_loop True self apCorrMap infos (map g catalog, w1) =
        (None, catalog', w')"
    and n: "length catalog' = length catalog"
    and p: "\<forall>i < length catalog. centroid (catalog' ! i) = centroid (map g catalog ! i)
                            \<and> dbl (catalog' ! i) key = dbl (map g catalog ! i) key"
    by auto
  have "field_loop True self apCorrMap (info # infos) (catalog, w) = (None, catalog', w')"
    using f l by (simp add: field_loop_def)
  with n p c d show ?case by simp
qed

lemma run_once_separate:
  assumes "distinct_keys apCorrInfo"
    and "k < length (apCorrInfoDict self)"
    and "snd (apCorrInfoDict self ! k) = apCorrInfo"
    and "\<forall>l < length (apCorrInfoDict self).
           l \<noteq> k \<longrightarrow>
           instFluxKey apCorrInfo \<notin> set (written_columns (snd (apCorrInfoDict self ! l)))"
    and "apCorrMap (modelName apCorrInfo) = Some apCorrModel"
    and "apCorrMap (modelSigmaName apCorrInfo) = Some apCorrErrModel"
    and "i < length catalog"
    and "apCorrModel (centroid (catalog ! i)) = Some apCorr"
    and "flt (Fin 0) apCorr"
  shows "\<exists>catalog1 w1. run True self catalog apCorrMap w = (None, catalog1, w1)
     \<and> length catalog1 = length catalog
     \<and> centroid (catalog1 ! i) = centroid (catalog ! i)
     \<and> dbl (catalog1 ! i) (instFluxKey apCorrInfo) =
         fmul (dbl (catalog ! i) (instFluxKey apCorrInfo)) apCorr"
proof -
  let ?infos = "map snd (apCorrInfoDict self)"
  let ?key = "instFluxKey apCorrInfo"
  let ?doFlag = "doFlagApCorrFailures (config self)"
  let ?f = "\<lambda>s. snd (correctSource True ?doFlag apCorrInfo apCorrModel apCorrErrModel s)"
  have before: "\<forall>info \<in> set (take k ?infos). ?key \<notin> set (written_columns info)"
  proof
    fix info assume "info \<in> set (take k ?infos)"
    then obtain l where "l < length (take k ?infos)" and "take k ?infos ! l = info"
      by (auto simp: in_set_conv_nth)
    then have "l < k" and "l < length (apCorrInfoDict self)" and "snd (apCorrInfoDict self ! l) = info"
      using assms(2) by auto
    with assms(4) show "?key \<notin> set (written_columns info)" by auto
  qed
  have after: "\<forall>info \<in> set (drop (Suc k) ?infos). ?key \<notin> set (written_columns info)"
  proof
    fix info assume "info \<in> set (drop (Suc k) ?infos)"
    then obtain l where l: "l < length (drop (Suc k) ?infos)" and "drop (Suc k) ?infos ! l = info"
      by (auto simp: in_set_conv_nth)
    then have "Suc k + l < length (apCorrInfoDict self)"
      and "snd (apCorrInfoDict self ! (Suc k + l)) = info"
      by auto
    with assms(4) show "?key \<notin> set (written_columns info)" by auto
  qed
  from field_loop_naive_frame [OF before, of self apCorrMap catalog w]
  obtain ck wk where lk: "field_loop True self apCorrMap (take k ?infos) (catalog, w) = (None, ck, wk)"
    and nk: "length ck = length catalog"
    and ek: "centroid (ck ! i) = centroid (catalog ! i)"
    and dk: "dbl (ck ! i) ?key = dbl (catalog ! i) ?key"
    using assms(7) by auto
  have r: "run True self catalog apCorrMap w =
      field_loop True self apCorrMap (drop (Suc k) ?infos) (map ?f ck, wk)"
    using run_split [OF assms(2) lk] assms(3)
    by (simp add: correctField_naive [OF assms(5) assms(6)])
  from field_loop_naive_frame [OF after, of self apCorrMap "map ?f ck" wk]
  obtain c1 w1 where l1: "field_loop True self apCorrMap (drop (Suc k) ?infos) (map ?f ck, wk) =
        (None, c1, w1)"
    and n1: "length c1 = length ck"
    and e1: "centroid (c1 ! i) = centroid (map ?f ck ! i)"
    and d1: "dbl (c1 ! i) ?key = dbl (map ?f ck ! i) ?key"
    using assms(7) nk by auto
  have ev: "apCorrModel (centroid (ck ! i)) = Some apCorr" using ek assms(8) by simp
  note v = correctSource_naive_valid
      [where info = apCorrInfo and m = apCorrModel and s = "ck ! i" and a = apCorr
         and doFlag = ?doFlag and me = apCorrErrModel, OF assms(1) ev assms(9)]
  have ni: "map ?f ck ! i = ?f (ck ! i)" using assms(7) nk by simp
  have "centroid (c1 ! i) = centroid (catalog ! i)"
    using e1 ek by (simp add: ni correctSource_frame(1))
  moreover have "dbl (c1 ! i) ?key = fmul (dbl (catalog ! i) ?key) apCorr"
    using d1 dk v(1) by (simp add: ni)
  ultimately show ?thesis using r l1 n1 nk by simp
qed

text \<open>
  Claim C9, as amended. In the naive mode, take a field whose flux column no other field of
  the task writes, and a source for which its model gives a correction \<open>apCorr > 0\<close>. Two
  runs with the same map multiply the flux of the source by \<open>apCorr\<close> twice, each time as a
  product of 64-bit floats: after the first run it is \<open>flux * apCorr\<close>, after the second
  \<open>(flux * apCorr) * apCorr\<close>. For flux 100.0 and correction 1.1 these are
  110.00000000000001 and 121.00000000000003, so the second run changes the result of the
  first.
\<close>

theorem second_run_multiplies_again:
  assumes "distinct_keys apCorrInfo"
    and "k < length (apCorrInfoDict self)"
    and "snd (apCorrInfoDict self ! k) = apCorrInfo"
    and "\<forall>l < length (apCorrInfoDict self).
           l \<noteq> k \<longrightarrow>
           instFluxKey apCorrInfo \<notin> set (written_columns (snd (apCorrInfoDict self ! l)))"
    and "apCorrMap (modelName apCorrInfo) = Some apCorrModel"
    and "apCorrMap (modelSigmaName apCorrInfo) = Some apCorrErrModel"
    and "i < length catalog"
    and "apCorrModel (centroid (catalog ! i)) = Some apCorr"
    and "flt (Fin 0) apCorr"
    and "run True self catalog apCorrMap warnings = (r1, catalog1, warnings1)"
    and "run True self catalog1 apCorrMap warnings1 = (r2, catalog2, warnings2)"
  shows "r1 = None \<and> r2 = None
       \<and> dbl (catalog1 ! i) (instFluxKey apCorrInfo) =
           fmul (dbl (catalog ! i) (instFluxKey apCorrInfo)) apCorr
       \<and> dbl (catalog2 ! i) (instFluxKey apCorrInfo) =
           fmul (fmul (dbl (catalog ! i) (instFluxKey apCorrInfo)) apCorr) apCorr"
proof -
  from run_once_separate
         [where apCorrInfo = apCorrInfo and self = self and k = k and apCorrMap = apCorrMap
            and apCorrModel = apCorrModel and apCorrErrModel = apCorrErrModel
            and catalog = catalog and i = i and apCorr = apCorr and w = warnings,
          OF assms(1) assms(2) assms(3) assms(4) assms(5) assms(6) assms(7) assms(8) assms(9)]
       assms(10)
  have a: "r1 = None" "length catalog1 = length catalog"
    "centroid (catalog1 ! i) = centroid (catalog ! i)"
    "dbl (catalog1 ! i) (instFluxKey apCorrInfo) =
       fmul (dbl (catalog ! i) (instFluxKey apCorrInfo)) apCorr"
    by auto
  have i1: "i < length catalog1" using a(2) assms(7) by simp
  have ev: "apCorrModel (centroid (catalog1 ! i)) = Some apCorr" using a(3) assms(8) by simp
  from run_once_separate
         [where apCorrInfo = apCorrInfo and self = self and k = k and apCorrMap = apCorrMap
            and apCorrModel = apCorrModel and apCorrErrModel = apCorrErrModel
            and catalog = catalog1 and i = i and apCorr = apCorr and w = warnings1,
          OF assms(1) assms(2) assms(3) assms(4) assms(5) assms(6) i1 ev assms(9)]
       assms(11)
  have b: "r2 = None"
    "dbl (catalog2 ! i) (instFluxKey apCorrInfo) =
       fmul (dbl (catalog1 ! i) (instFluxKey apCorrInfo)) apCorr"
    by auto
  from a b show ?thesis by simp
qed

lemma ex_proxy_map:
  "ex_apCorrMap m (modelName ex_psf_info) = Some m"
  "ex_apCorrMap m (modelSigmaName ex_psf_info) = Some (ex_constant (Fin 0))"
  by (simp_all add: ex_apCorrMap_def ex_psf_info_def)

theorem second_run_multiplies_again_witness:
  "dbl ex_source (instFluxKey ex_psf_info) = Fin 100
   \<and> dbl (fst (snd (ex_once ex_task_proxy (fround 1.1) ex_source)) ! 0)
        (instFluxKey ex_psf_info) = Fin (7740561859543041 / 2 ^ 46)
   \<and> dbl (fst (snd (ex_twice ex_task_proxy (fround 1.1) ex_source)) ! 0)
        (instFluxKey ex_psf_info) = Fin (4257309022748673 / 2 ^ 45)
   \<and> Fin (4257309022748673 / 2 ^ 45) \<noteq> Fin (7740561859543041 / 2 ^ 46)"
proof -
  let ?map = "ex_apCorrMap (ex_constant (fround 1.1))"
  have k: "0 < length (apCorrInfoDict ex_task_proxy)" by (simp add: ex_task_proxy_def)
  have a: "snd (apCorrInfoDict ex_task_proxy ! 0) = ex_psf_info" by (simp add: ex_task_proxy_def)
  have s: "\<forall>l < length (apCorrInfoDict ex_task_proxy).
             l \<noteq> 0 \<longrightarrow>
             instFluxKey ex_psf_info \<notin>
               set (written_columns (snd (apCorrInfoDict ex_task_proxy ! l)))"
    by (simp add: ex_task_proxy_def written_columns_def ex_gauss_info_def ex_psf_info_def
          less_Suc_eq)
  have j: "0 < length [ex_source]" by simp
  have v: "ex_constant (fround 1.1) (centroid ([ex_source] ! 0)) = Some (fround 1.1)"
    by (simp add: ex_constant_def)
  have o: "run True ex_task_proxy [ex_source] ?map [] =
      (fst (ex_once ex_task_proxy (fround 1.1) ex_source),
       fst (snd (ex_once ex_task_proxy (fround 1.1) ex_source)),
       snd (snd (ex_once ex_task_proxy (fround 1.1) ex_source)))"
    by (simp add: ex_once_def)
  have t: "run True ex_task_proxy (fst (snd (ex_once ex_task_proxy (fround 1.1) ex_source))) ?map
        (snd (snd (ex_once ex_task_proxy (fround 1.1) ex_source))) =
      (fst (ex_twice ex_task_proxy (fround 1.1) ex_source),
       fst (snd (ex_twice ex_task_proxy (fround 1.1) ex_source)),
       snd (snd (ex_twice ex_task_proxy (fround 1.1) ex_source)))"
    by (simp add: ex_twice_def)
  have f: "dbl ex_source (instFluxKey ex_psf_info) = Fin 100"
    by (simp add: ex_source_def ex_psf_info_def)
  from second_run_multiplies_again
         [where apCorrInfo = ex_psf_info and self = ex_task_proxy and k = 0
            and apCorrMap = ?map and apCorrModel = "ex_constant (fround 1.1)"
            and apCorrErrModel = "ex_constant (Fin 0)" and catalog = "[ex_source]" and i = 0
            and apCorr = "fround 1.1",
          OF distinct_keys_psf k a s ex_proxy_map(1) ex_proxy_map(2) j v flt_1_1 o t]
       f fmul_110_1_1
  show ?thesis by (simp add: fmul_100_1_1)
qed

text \<open>
  The claim as it is stated fails in two ways. First, the second result does not differ from
  the first whenever \<open>apCorr \<noteq> 1\<close>: with the correction 2.0 a source whose flux is 0.0 is
  corrected in both runs (its flag is cleared) and its flux is 0.0 after each. Second, the flux
  after two runs is not always the flux multiplied by \<open>apCorr\<close> twice: in a task where the
  field \<open>slot\<close> has the flux column of \<open>psf\<close>, one run multiplies the flux 100.0 by 2.0 twice
  already, and two runs make it 1600.0.
\<close>

theorem second_run_multiplies_again_counterexample:
  "Fin 2 \<noteq> Fin 1
   \<and> fst (ex_once ex_task (Fin 2) ex_dark) = None
   \<and> \<not> flg (fst (snd (ex_once ex_task (Fin 2) ex_dark)) ! 0) (apCorrFlagKey ex_psf_info)
   \<and> dbl (fst (snd (ex_twice ex_task (Fin 2) ex_dark)) ! 0) (instFluxKey ex_psf_info) =
       dbl (fst (snd (ex_once ex_task (Fin 2) ex_dark)) ! 0) (instFluxKey ex_psf_info)
   \<and> dbl (fst (snd (ex_once ex_task_slot (Fin 2) ex_source)) ! 0) (instFluxKey ex_psf_info) =
       Fin 400
   \<and> dbl (fst (snd (ex_twice ex_task_slot (Fin 2) ex_source)) ! 0) (instFluxKey ex_psf_info) =
       Fin 1600"
  by (simp add: ex_once_def ex_twice_def run_def field_loop_def ex_task_def ex_task_slot_def
        correctField_def correctSource_def evaluateApCorr_def new_instFluxErr_def Let_def
        flt_def ex_source_defs ex_slot_info_def fround_small)

end
